theory Spec2Isabelle
  imports Main "HOL-Library.Sublist"
begin

section \<open>JavaScript strings\<close>

text \<open>
  Strings are lists of characters. The model covers the strings whose UTF-16 code units
  are below 256: a character is one code unit, and \<^verbatim>\<open>.length\<close> is the length of the
  list. Among these code units \<^verbatim>\<open>\s\<close> and \<^verbatim>\<open>String.prototype.trim\<close> see tab, line
  feed, vertical tab, form feed, carriage return, space and the no-break space (code unit
  160) as white space; line feed and carriage return are the line terminators.
\<close>

definition is_space :: "char \<Rightarrow> bool" where
  "is_space c \<longleftrightarrow>
     c \<in> {CHR 0x09, CHR 0x0A, CHR 0x0B, CHR 0x0C, CHR 0x0D, CHR 0x20, CHR 0xA0}"

definition is_line_terminator :: "char \<Rightarrow> bool" where
  "is_line_terminator c \<longleftrightarrow> c \<in> {CHR 0x0A, CHR 0x0D}"

definition is_digit :: "char \<Rightarrow> bool" where
  "is_digit c \<longleftrightarrow> 48 \<le> (of_char c :: nat) \<and> (of_char c :: nat) \<le> 57"

definition is_upper :: "char \<Rightarrow> bool" where
  "is_upper c \<longleftrightarrow> 65 \<le> (of_char c :: nat) \<and> (of_char c :: nat) \<le> 90"

definition is_lower :: "char \<Rightarrow> bool" where
  "is_lower c \<longleftrightarrow> 97 \<le> (of_char c :: nat) \<and> (of_char c :: nat) \<le> 122"

text \<open>The class \<^verbatim>\<open>\w\<close>: letters, digits and the underscore.\<close>

definition is_word_char :: "char \<Rightarrow> bool" where
  "is_word_char c \<longleftrightarrow> is_upper c \<or> is_lower c \<or> is_digit c \<or> c = CHR ''_''"

definition trim :: "string \<Rightarrow> string" where
  "trim s = rev (dropWhile is_space (rev (dropWhile is_space s)))"

text \<open>
  \<^verbatim>\<open>String.prototype.toLowerCase\<close>: below 256 the upper-case letters are \<^verbatim>\<open>A\<close> to
  \<^verbatim>\<open>Z\<close> and the code units 192 to 222 without the multiplication sign 215; the lower-case
  letter is 32 higher.
\<close>

definition has_lower_case :: "char \<Rightarrow> bool" where
  "has_lower_case c \<longleftrightarrow>
     is_upper c
     \<or> (192 \<le> (of_char c :: nat) \<and> (of_char c :: nat) \<le> 222 \<and> (of_char c :: nat) \<noteq> 215)"

definition toLowerCase :: "string \<Rightarrow> string" where
  "toLowerCase s =
     map (\<lambda>c. if has_lower_case c then char_of (of_char c + (32::nat)) else c) s"

text \<open>\<^verbatim>\<open>Array.prototype.join\<close> on an array of strings.\<close>

fun join :: "string \<Rightarrow> string list \<Rightarrow> string" where
  "join sep [] = []"
| "join sep [x] = x"
| "join sep (x # y # ys) = x @ sep @ join sep (y # ys)"

text \<open>\<^verbatim>\<open>String.prototype.includes\<close>: the search string occurs at some position.\<close>

fun str_includes :: "string \<Rightarrow> string \<Rightarrow> bool" where
  "str_includes [] k = (k = [])"
| "str_includes (c # cs) k = (prefix k (c # cs) \<or> str_includes cs k)"

text \<open>The decimal numeral that a template literal prints for a non-negative integer.\<close>

function show_nat :: "nat \<Rightarrow> string" where
  "show_nat n =
     (if n < 10 then [char_of (48 + n)]
      else show_nat (n div 10) @ [char_of (48 + n mod 10)])"
  by pat_completeness auto
termination
  by (relation "measure id") auto

section \<open>JavaScript values\<close>

text \<open>
  The values that cross the IPC boundary and the values that are thrown. Numbers are
  integers here; an object (or array) is the list of its own properties.
\<close>

datatype js_value =
    JUndefined
  | JNull
  | JBool bool
  | JNumber int
  | JString string
  | JObject "(string \<times> js_value) list"

fun truthy :: "js_value \<Rightarrow> bool" where
  "truthy JUndefined = False"
| "truthy JNull = False"
| "truthy (JBool b) = b"
| "truthy (JNumber n) = (n \<noteq> 0)"
| "truthy (JString s) = (s \<noteq> [])"
| "truthy (JObject ps) = True"

fun typeof :: "js_value \<Rightarrow> string" where
  "typeof JUndefined = ''undefined''"
| "typeof JNull = ''object''"
| "typeof (JBool b) = ''boolean''"
| "typeof (JNumber n) = ''number''"
| "typeof (JString s) = ''string''"
| "typeof (JObject ps) = ''object''"

text \<open>
  Reading one of the properties \<^verbatim>\<open>name\<close>, \<^verbatim>\<open>content\<close>, \<^verbatim>\<open>metadata\<close>, \<^verbatim>\<open>theme\<close>,
  \<^verbatim>\<open>autoSave\<close>, \<^verbatim>\<open>consultAgents\<close>, \<^verbatim>\<open>message\<close> or \<^verbatim>\<open>code\<close> of a value that is
  neither \<^verbatim>\<open>null\<close> nor \<^verbatim>\<open>undefined\<close>: a boolean, a number or a string has none of them.
\<close>

fun get_prop :: "js_value \<Rightarrow> string \<Rightarrow> js_value" where
  "get_prop (JObject ps) k = (case map_of ps k of None \<Rightarrow> JUndefined | Some v \<Rightarrow> v)"
| "get_prop _ k = JUndefined"

text \<open>\<^verbatim>\<open>.length\<close> of a value that passed the string check.\<close>

fun js_length :: "js_value \<Rightarrow> nat" where
  "js_length (JString s) = length s"
| "js_length _ = 0"

text \<open>
  \<^verbatim>\<open>new Error(msg)\<close>, and the \<^verbatim>\<open>TypeError\<close> that the engine throws; both have the
  message as their own property.
\<close>

definition Error :: "string \<Rightarrow> js_value" where
  "Error msg = JObject [(''message'', JString msg)]"

definition TypeError :: "string \<Rightarrow> js_value" where
  "TypeError msg = JObject [(''message'', JString msg)]"

text \<open>
  Reading a property of any value: on \<^verbatim>\<open>null\<close> and \<^verbatim>\<open>undefined\<close> the engine throws
  (\<open>Inl\<close>) a \<^verbatim>\<open>TypeError\<close>.
\<close>

fun read_member :: "js_value \<Rightarrow> string \<Rightarrow> js_value + js_value" where
  "read_member JUndefined k =
     Inl (TypeError (''Cannot read properties of undefined (reading '' @ [CHR 0x27] @ k
                       @ [CHR 0x27] @ '')''))"
| "read_member JNull k =
     Inl (TypeError (''Cannot read properties of null (reading '' @ [CHR 0x27] @ k
                       @ [CHR 0x27] @ '')''))"
| "read_member v k = Inr (get_prop v k)"

section \<open>Rate limiting of IPC channels (src/main/ipcHandlers.js)\<close>

text \<open>
  The module keeps one mutable map from channel names to arrays of timestamps
  (\<^verbatim>\<open>rateLimitMap\<close>). The model passes that map explicitly; \<^verbatim>\<open>Date.now()\<close> is the
  argument \<open>now\<close>, an integer number of milliseconds.
\<close>

type_synonym rate_map = "string \<Rightarrow> int list option"

definition RATE_LIMIT_WINDOW :: int where
  "RATE_LIMIT_WINDOW = 60000"

definition RATE_LIMITS :: "(string \<times> nat) list" where
  "RATE_LIMITS =
    [(''save-agent'', 10),
     (''load-agents'', 20),
     (''get-existing-agents'', 20),
     (''process-pdf'', 5),
     (''load-settings'', 30),
     (''save-settings'', 20),
     (''load-template'', 10),
     (''consult-agent'', 30),
     (''get-app-version'', 60)]"

text \<open>
  \<^verbatim>\<open>RATE_LIMITS\<close> is an object literal, so \<^verbatim>\<open>RATE_LIMITS[channel]\<close> finds the
  table's own keys and, for other names, the properties that every object inherits from
  \<^verbatim>\<open>Object.prototype\<close>. An inherited property is a function (or, for
  \<^verbatim>\<open>__proto__\<close>, the prototype object): it is truthy, so \<^verbatim>\<open>|| 10\<close> keeps it, and
  as a number it is \<^verbatim>\<open>NaN\<close>. A missing entry is \<^verbatim>\<open>undefined\<close> and an entry 0 is falsy:
  both give the default 10.
\<close>

definition object_prototype_properties :: "string list" where
  "object_prototype_properties =
    [''constructor'', ''__defineGetter__'', ''__defineSetter__'', ''hasOwnProperty'',
     ''__lookupGetter__'', ''__lookupSetter__'', ''isPrototypeOf'', ''propertyIsEnumerable'',
     ''toString'', ''valueOf'', ''__proto__'', ''toLocaleString'']"

datatype limit = Quota nat | NotANumber

definition channel_limit :: "string \<Rightarrow> limit" where
  "channel_limit channel =
     (case map_of RATE_LIMITS channel of
        Some n \<Rightarrow> if n = 0 then Quota 10 else Quota n
      | None \<Rightarrow>
          if channel \<in> set object_prototype_properties then NotANumber else Quota 10)"

text \<open>\<^verbatim>\<open>validRequests.length >= limit\<close>: a comparison with \<^verbatim>\<open>NaN\<close> is false.\<close>

fun limit_reached :: "nat \<Rightarrow> limit \<Rightarrow> bool" where
  "limit_reached len (Quota n) = (n \<le> len)"
| "limit_reached len NotANumber = False"

definition stored :: "rate_map \<Rightarrow> string \<Rightarrow> int list" where
  "stored m channel = (case m channel of None \<Rightarrow> [] | Some r \<Rightarrow> r)"

definition in_window :: "int \<Rightarrow> int \<Rightarrow> bool" where
  "in_window now timestamp \<longleftrightarrow> now - timestamp < RATE_LIMIT_WINDOW"

text \<open>
  \<^verbatim>\<open>isRateLimited\<close> returns the verdict (\<open>True\<close>: the request is blocked) and the map
  as the call leaves it. \<^verbatim>\<open>validRequests.push(now)\<close> mutates the array that was just
  stored under the channel, so the stored array ends with \<open>now\<close> after an admitted call.
\<close>

definition isRateLimited :: "int \<Rightarrow> string \<Rightarrow> rate_map \<Rightarrow> bool \<times> rate_map" where
  "isRateLimited now channel m =
     (let limit = channel_limit channel;
          m1 = (if m channel = None then m(channel \<mapsto> []) else m);
          requests = stored m1 channel;
          validRequests = filter (in_window now) requests;
          m2 = m1(channel \<mapsto> validRequests)
      in if limit_reached (length validRequests) limit
         then (True, m2)
         else (False, m2(channel \<mapsto> validRequests @ [now])))"

text \<open>
  A history of calls: each call is the pair of its time and its channel. \<open>serve\<close> runs the
  calls in order from the empty map and keeps, beside the map, the log of the calls that
  were admitted.
\<close>

definition serve_step ::
    "(int \<times> string) list \<times> rate_map \<Rightarrow> int \<times> string \<Rightarrow> (int \<times> string) list \<times> rate_map" where
  "serve_step s call =
     (let r = isRateLimited (fst call) (snd call) (snd s)
      in (if fst r then fst s else fst s @ [call], snd r))"

definition serve :: "(int \<times> string) list \<Rightarrow> (int \<times> string) list \<times> rate_map" where
  "serve calls = foldl serve_step ([], Map.empty) calls"

definition admitted_in_window :: "int \<Rightarrow> string \<Rightarrow> (int \<times> string) list \<Rightarrow> int list" where
  "admitted_in_window now channel log =
     filter (in_window now) (map fst (filter (\<lambda>c. snd c = channel) log))"

section \<open>Error message sanitizer (src/main/ipcHandlers.js, sanitizeErrorMessage)\<close>

text \<open>
  Each of the four \<^verbatim>\<open>replace\<close> calls has a global regular expression: the string is
  scanned from the left, at each position the expression is tried, a match is replaced and
  the scan goes on behind it, a character where nothing matches is copied. The matchers
  below say what one expression matches at the start of a string and return what is left
  behind the match.

  \<^verbatim>\<open>/\/[^\s]+/g\<close>: a slash and the longest run of at least one character that is not
  white space.
\<close>

fun unix_match :: "string \<Rightarrow> string option" where
  "unix_match (c # d # ds) =
     (if c = CHR ''/'' \<and> \<not> is_space d
      then Some (dropWhile (\<lambda>x. \<not> is_space x) ds) else None)"
| "unix_match _ = None"

function replace_unix_paths :: "string \<Rightarrow> string" where
  "replace_unix_paths [] = []"
| "replace_unix_paths (c # cs) =
     (case unix_match (c # cs) of
        Some rest \<Rightarrow> ''[path]'' @ replace_unix_paths rest
      | None \<Rightarrow> c # replace_unix_paths cs)"
  by pat_completeness auto
termination
proof (relation "measure length")
  fix c cs rest
  assume "unix_match (c # cs) = Some rest"
  then have "length rest < length (c # cs)"
    using length_dropWhile_le [of "\<lambda>x. \<not> is_space x" "tl cs"]
    by (cases cs) (auto split: if_splits)
  then show "(rest, c # cs) \<in> measure length" by simp
qed simp_all

text \<open>
  \<^verbatim>\<open>/[A-Z]:\\[^\s]+/g\<close>: an upper-case letter, a colon, a backslash and the longest run
  of at least one character that is not white space.
\<close>

fun windows_match :: "string \<Rightarrow> string option" where
  "windows_match (a # b # c # d # ds) =
     (if is_upper a \<and> b = CHR '':'' \<and> c = CHR 0x5C \<and> \<not> is_space d
      then Some (dropWhile (\<lambda>x. \<not> is_space x) ds) else None)"
| "windows_match _ = None"

function replace_windows_paths :: "string \<Rightarrow> string" where
  "replace_windows_paths [] = []"
| "replace_windows_paths (c # cs) =
     (case windows_match (c # cs) of
        Some rest \<Rightarrow> ''[path]'' @ replace_windows_paths rest
      | None \<Rightarrow> c # replace_windows_paths cs)"
  by pat_completeness auto
termination
proof (relation "measure length")
  fix c cs rest
  assume "windows_match (c # cs) = Some rest"
  then have "length rest < length (c # cs)"
    using length_dropWhile_le [of "\<lambda>x. \<not> is_space x" "tl (tl (tl cs))"]
    by (cases cs; cases "tl cs"; cases "tl (tl cs)") (auto split: if_splits)
  then show "(rest, c # cs) \<in> measure length" by simp
qed simp_all

text \<open>
  \<^verbatim>\<open>/\bat\s+.*$/gm\<close>: at a word boundary, the letters \<^verbatim>\<open>at\<close>, the longest run of at
  least one white space character (line terminators are white space), and the rest of
  the line on which that run ends; with the flag \<^verbatim>\<open>m\<close>, \<^verbatim>\<open>$\<close> holds before a line
  terminator and at the end of the string. The matcher returns the last matched character
  too: the word boundary of a later match looks at the character before it. \<open>prev\<close> is
  that character, \<open>None\<close> at the start of the string.
\<close>

fun stack_match :: "string \<Rightarrow> (char \<times> string) option" where
  "stack_match (a # t # w # ws) =
     (if a = CHR ''a'' \<and> t = CHR ''t'' \<and> is_space w
      then
        (let after_space = dropWhile is_space ws;
             line = takeWhile (\<lambda>x. \<not> is_line_terminator x) after_space;
             rest = dropWhile (\<lambda>x. \<not> is_line_terminator x) after_space
         in Some (last (w # takeWhile is_space ws @ line), rest))
      else None)"
| "stack_match _ = None"

definition boundary_before :: "char option \<Rightarrow> char \<Rightarrow> bool" where
  "boundary_before prev c =
     (case prev of
        None \<Rightarrow> is_word_char c
      | Some p \<Rightarrow> is_word_char p \<noteq> is_word_char c)"

function remove_stack_locations :: "char option \<Rightarrow> string \<Rightarrow> string" where
  "remove_stack_locations prev [] = []"
| "remove_stack_locations prev (c # cs) =
     (case (if boundary_before prev c then stack_match (c # cs) else None) of
        Some (l, rest) \<Rightarrow> remove_stack_locations (Some l) rest
      | None \<Rightarrow> c # remove_stack_locations (Some c) cs)"
  by pat_completeness auto
termination
proof (relation "measure (\<lambda>(prev, s). length s)")
  fix prev :: "char option" and c cs x l rest
  assume "(if boundary_before prev c then stack_match (c # cs) else None) = Some x"
    and "(l, rest) = x"
  then have m: "stack_match (c # cs) = Some (l, rest)" by (simp split: if_splits)
  have "length rest < length (c # cs)"
    using m
  proof (induction "c # cs" arbitrary: c cs rule: stack_match.induct)
    case (1 a t w ws)
    have "length (dropWhile (\<lambda>x. \<not> is_line_terminator x) (dropWhile is_space ws))
        \<le> length ws"
      by (rule le_trans [OF length_dropWhile_le length_dropWhile_le])
    with 1 show ?case by (auto simp: Let_def split: if_splits)
  qed simp_all
  then show "((Some l, rest), prev, c # cs) \<in> measure (\<lambda>(prev, s). length s)" by simp
qed simp_all

text \<open>
  \<^verbatim>\<open>/\(.*?:\d+:\d+\)/g\<close>: an opening parenthesis, as few characters of the line as
  possible, then a colon, digits, a colon, digits and a closing parenthesis.
  \<open>linecol_tail\<close> matches the part from the first colon on; \<open>linecol_find\<close> is the lazy
  \<^verbatim>\<open>.*?\<close>, which tries the tail and otherwise steps over one character that is not a line
  terminator.
\<close>

fun digits1 :: "string \<Rightarrow> string option" where
  "digits1 [] = None"
| "digits1 (d # ds) = (if is_digit d then Some (dropWhile is_digit ds) else None)"

definition linecol_tail :: "string \<Rightarrow> string option" where
  "linecol_tail s =
     (case s of
        [] \<Rightarrow> None
      | c # s1 \<Rightarrow>
          if c \<noteq> CHR '':'' then None
          else
            (case digits1 s1 of
               None \<Rightarrow> None
             | Some [] \<Rightarrow> None
             | Some (c2 # s2) \<Rightarrow>
                 if c2 \<noteq> CHR '':'' then None
                 else
                   (case digits1 s2 of
                      None \<Rightarrow> None
                    | Some [] \<Rightarrow> None
                    | Some (c3 # rest) \<Rightarrow> if c3 = CHR '')'' then Some rest else None)))"

fun linecol_find :: "string \<Rightarrow> string option" where
  "linecol_find [] = None"
| "linecol_find (c # cs) =
     (case linecol_tail (c # cs) of
        Some rest \<Rightarrow> Some rest
      | None \<Rightarrow> if is_line_terminator c then None else linecol_find cs)"

definition linecol_match :: "string \<Rightarrow> string option" where
  "linecol_match s =
     (case s of
        [] \<Rightarrow> None
      | c # cs \<Rightarrow> if c = CHR ''('' then linecol_find cs else None)"

function remove_linecol_refs :: "string \<Rightarrow> string" where
  "remove_linecol_refs [] = []"
| "remove_linecol_refs (c # cs) =
     (case linecol_match (c # cs) of
        Some rest \<Rightarrow> remove_linecol_refs rest
      | None \<Rightarrow> c # remove_linecol_refs cs)"
  by pat_completeness auto
termination
proof (relation "measure length")
  fix c cs rest
  assume m: "linecol_match (c # cs) = Some rest"
  have digits: "length r < length s" if "digits1 s = Some r" for s r
    using that
    by (cases s) (auto split: if_splits intro: le_less_trans [OF length_dropWhile_le])
  have tail: "length r < length s" if "linecol_tail s = Some r" for s r
    using that
    by (auto simp: linecol_tail_def split: list.splits if_splits option.splits dest!: digits)
  have find: "length r < length s" if "linecol_find s = Some r" for s r
    using that by (induction s) (auto split: option.splits if_splits dest: tail)
  from m have "length rest < length (c # cs)"
    by (auto simp: linecol_match_def split: if_splits dest: find)
  then show "(rest, c # cs) \<in> measure length" by simp
qed simp_all

text \<open>The four \<^verbatim>\<open>replace\<close> calls in their order.\<close>

definition sanitize_passes :: "string \<Rightarrow> string" where
  "sanitize_passes msg =
     remove_linecol_refs
       (remove_stack_locations None
          (replace_windows_paths (replace_unix_paths msg)))"

text \<open>
  \<^verbatim>\<open>sanitizeErrorMessage(error)\<close> reads \<^verbatim>\<open>error.message\<close>, which throws for
  \<^verbatim>\<open>null\<close> and \<^verbatim>\<open>undefined\<close>. In \<^verbatim>\<open>error.message || 'An error occurred'\<close> a falsy
  message gives the default; a truthy message that is not a string has no method
  \<^verbatim>\<open>replace\<close>, and the call throws. \<^verbatim>\<open>sanitized.trim() || 'An error occurred'\<close> gives
  the default for the empty string. The function returns the string (\<open>Inr\<close>) or throws
  (\<open>Inl\<close>).
\<close>

definition sanitizeErrorMessage :: "js_value \<Rightarrow> js_value + string" where
  "sanitizeErrorMessage error =
     (case read_member error ''message'' of
        Inl thrown_error \<Rightarrow> Inl thrown_error
      | Inr m \<Rightarrow>
          (case (if truthy m then m else JString ''An error occurred'') of
             JString msg \<Rightarrow>
               (let sanitized = sanitize_passes msg
                in Inr (if trim sanitized = [] then ''An error occurred'' else trim sanitized))
           | _ \<Rightarrow> Inl (TypeError ''message.replace is not a function'')))"

section \<open>Input validators and IPC handlers (src/main/ipcHandlers.js)\<close>

text \<open>
  A validator either throws (\<open>Inl\<close> of the error) or returns \<^verbatim>\<open>true\<close>.
\<close>

definition validateAgentData :: "js_value \<Rightarrow> js_value + bool" where
  "validateAgentData agentData =
     (if \<not> truthy agentData \<or> typeof agentData \<noteq> ''object''
      then Inl (Error ''Invalid agent data: must be an object'')
      else if \<not> truthy (get_prop agentData ''name'')
              \<or> typeof (get_prop agentData ''name'') \<noteq> ''string''
      then Inl (Error ''Invalid agent data: name is required and must be a string'')
      else if 200 < js_length (get_prop agentData ''name'')
      then Inl (Error ''Invalid agent data: name too long (max 200 characters)'')
      else if \<not> truthy (get_prop agentData ''content'')
              \<or> typeof (get_prop agentData ''content'') \<noteq> ''string''
      then Inl (Error ''Invalid agent data: content is required and must be a string'')
      else if 1000000 < js_length (get_prop agentData ''content'')
      then Inl (Error ''Invalid agent data: content too large (max 1MB)'')
      else if truthy (get_prop agentData ''metadata'')
              \<and> typeof (get_prop agentData ''metadata'') \<noteq> ''object''
      then Inl (Error ''Invalid agent data: metadata must be an object'')
      else Inr True)"

text \<open>
  The \<^verbatim>\<open>forEach\<close> over the two flag names throws at the first flag that is present
  and not a boolean.
\<close>

fun check_flags :: "js_value \<Rightarrow> string list \<Rightarrow> js_value + bool" where
  "check_flags settings [] = Inr True"
| "check_flags settings (key # keys) =
     (if get_prop settings key \<noteq> JUndefined \<and> typeof (get_prop settings key) \<noteq> ''boolean''
      then Inl (Error (''Invalid settings: '' @ key @ '' must be a boolean''))
      else check_flags settings keys)"

definition validateSettings :: "js_value \<Rightarrow> js_value + bool" where
  "validateSettings settings =
     (if \<not> truthy settings \<or> typeof settings \<noteq> ''object''
      then Inl (Error ''Invalid settings: must be an object'')
      else if truthy (get_prop settings ''theme'')
              \<and> get_prop settings ''theme'' \<notin> set [JString ''light'', JString ''dark'']
      then Inl (Error ''Invalid settings: theme must be \"light\" or \"dark\"'')
      else check_flags settings [''autoSave'', ''consultAgents''])"

text \<open>
  \<^verbatim>\<open>validatePdfPath\<close> asks the platform whether the path is absolute
  (\<^verbatim>\<open>path.isAbsolute\<close>) and the file system for the file's status (\<^verbatim>\<open>fs.stat\<close>, which
  may throw); both answers are arguments. The \<^verbatim>\<open>catch\<close> block reads \<^verbatim>\<open>error.code\<close>
  of what was thrown inside the \<^verbatim>\<open>try\<close> block: with the code \<^verbatim>\<open>ENOENT\<close> it throws
  \<^verbatim>\<open>File not found\<close>, any other value is thrown again.
\<close>

record file_stats =
  isFile :: bool
  size :: nat

definition MAX_FILE_SIZE :: nat where
  "MAX_FILE_SIZE = 10 * 1024 * 1024"

definition validatePdfPath ::
    "js_value \<Rightarrow> bool \<Rightarrow> js_value + file_stats \<Rightarrow> js_value + bool" where
  "validatePdfPath filePath isAbsolute stat_result =
     (if \<not> truthy filePath \<or> typeof filePath \<noteq> ''string''
      then Inl (Error ''Invalid file path: must be a string'')
      else if \<not> isAbsolute
      then Inl (Error ''Invalid file path: must be absolute'')
      else
        (let attempt =
               (case stat_result of
                  Inl e \<Rightarrow> Inl e
                | Inr stats \<Rightarrow>
                    if \<not> isFile stats then Inl (Error ''Invalid file path: not a file'')
                    else if MAX_FILE_SIZE < size stats
                    then Inl (Error (''File too large: maximum ''
                           @ show_nat (MAX_FILE_SIZE div 1024 div 1024) @ ''MB allowed''))
                    else Inr True)
         in case attempt of
              Inl e \<Rightarrow>
                (case read_member e ''code'' of
                   Inl thrown_error \<Rightarrow> Inl thrown_error
                 | Inr c \<Rightarrow>
                     if c = JString ''ENOENT'' then Inl (Error ''File not found'') else Inl e)
            | Inr ok \<Rightarrow> Inr ok))"

text \<open>\<^verbatim>\<open>/^[a-zA-Z0-9-_]+$/\<close>: letters, digits, hyphen and underscore.\<close>

definition safe_char :: "char \<Rightarrow> bool" where
  "safe_char c \<longleftrightarrow> is_lower c \<or> is_upper c \<or> is_digit c \<or> c = CHR ''-'' \<or> c = CHR ''_''"

definition validateAgentType :: "js_value \<Rightarrow> js_value + bool" where
  "validateAgentType agentType =
     (if \<not> truthy agentType \<or> typeof agentType \<noteq> ''string''
      then Inl (Error ''Invalid agent type: must be a non-empty string'')
      else if 100 < js_length agentType
      then Inl (Error ''Invalid agent type: too long (max 100 characters)'')
      else if \<not> (case agentType of JString s \<Rightarrow> s \<noteq> [] \<and> list_all safe_char s | _ \<Rightarrow> False)
      then Inl (Error
        ''Invalid agent type: only alphanumeric, hyphens, and underscores allowed'')
      else Inr True)"

text \<open>
  The objects that the handlers return. \<^verbatim>\<open>{ success: true, ...result }\<close> writes the
  properties of \<open>result\<close> over the object in order.
\<close>

definition rate_limit_response :: js_value where
  "rate_limit_response =
     JObject [(''success'', JBool False),
              (''error'', JString ''Rate limit exceeded. Please try again later.'')]"

text \<open>
  \<^verbatim>\<open>{ success: false, error: sanitizeErrorMessage(error) }\<close>, with further properties
  for \<^verbatim>\<open>load-settings\<close>: the object is built only when the sanitizer returns.
\<close>

definition error_response :: "js_value \<Rightarrow> (string \<times> js_value) list \<Rightarrow> js_value + js_value" where
  "error_response error extra =
     (case sanitizeErrorMessage error of
        Inl thrown_error \<Rightarrow> Inl thrown_error
      | Inr msg \<Rightarrow>
          Inr (JObject ([(''success'', JBool False), (''error'', JString msg)] @ extra)))"

fun set_prop :: "(string \<times> js_value) list \<Rightarrow> string \<times> js_value \<Rightarrow> (string \<times> js_value) list" where
  "set_prop [] kv = [kv]"
| "set_prop (p # ps) kv = (if fst p = fst kv then kv # ps else p # set_prop ps kv)"

definition spread :: "(string \<times> js_value) list \<Rightarrow> (string \<times> js_value) list \<Rightarrow> js_value" where
  "spread obj result = JObject (foldl set_prop obj result)"

text \<open>
  \<^verbatim>\<open>try { ... } catch (error) { ... }\<close>: the body either throws or returns; so does the
  whole statement.
\<close>

definition try_catch :: "js_value + 'a \<Rightarrow> (js_value \<Rightarrow> js_value + 'a) \<Rightarrow> js_value + 'a" where
  "try_catch body handler = (case body of Inl e \<Rightarrow> handler e | Inr v \<Rightarrow> Inr v)"

text \<open>
  A request names its channel and carries the arguments of the renderer and what the
  environment answers to the calls that the handler makes once the guards are passed:
  the methods of \<^verbatim>\<open>fileManager\<close>, the file system and the PDF parser, \<^verbatim>\<open>app.getVersion\<close>.
  Each of them returns a value or throws one (\<open>Inl\<close>).
\<close>

record pdf_data =
  pdf_text :: js_value
  pdf_numpages :: js_value
  pdf_info :: js_value

datatype request =
    Save_agent js_value "js_value + (string \<times> js_value) list"
  | Load_agents "js_value + js_value"
  | Get_existing_agents "js_value + js_value"
  | Process_pdf js_value bool "js_value + file_stats" "js_value + pdf_data"
  | Load_settings "js_value + js_value"
  | Save_settings js_value "js_value + unit"
  | Load_template "js_value + js_value"
  | Get_app_version "js_value + string"
  | Consult_agent js_value js_value "js_value + js_value"

fun channel_of :: "request \<Rightarrow> string" where
  "channel_of (Save_agent agentData saved) = ''save-agent''"
| "channel_of (Load_agents loaded) = ''load-agents''"
| "channel_of (Get_existing_agents loaded) = ''get-existing-agents''"
| "channel_of (Process_pdf filePath isAbsolute stat_result parsed) = ''process-pdf''"
| "channel_of (Load_settings loaded) = ''load-settings''"
| "channel_of (Save_settings settings saved) = ''save-settings''"
| "channel_of (Load_template loaded) = ''load-template''"
| "channel_of (Get_app_version version) = ''get-app-version''"
| "channel_of (Consult_agent agentType query consulted) = ''consult-agent''"

text \<open>
  The body of each handler behind its rate limit check: the statements of the \<^verbatim>\<open>try\<close>
  block, which throw (\<open>Inl\<close>) or return the handler's answer.
\<close>

fun guarded_body :: "request \<Rightarrow> js_value + js_value" where
  "guarded_body (Save_agent agentData saved) =
     (case validateAgentData agentData of
        Inl e \<Rightarrow> Inl e
      | Inr ok \<Rightarrow>
          (case saved of
             Inl e \<Rightarrow> Inl e
           | Inr result \<Rightarrow> Inr (spread [(''success'', JBool True)] result)))"
| "guarded_body (Load_agents loaded) =
     (case loaded of
        Inl e \<Rightarrow> Inl e
      | Inr agents \<Rightarrow> Inr (JObject [(''success'', JBool True), (''agents'', agents)]))"
| "guarded_body (Get_existing_agents loaded) =
     (case loaded of
        Inl e \<Rightarrow> Inl e
      | Inr agents \<Rightarrow> Inr (JObject [(''success'', JBool True), (''agents'', agents)]))"
| "guarded_body (Process_pdf filePath isAbsolute stat_result parsed) =
     (case validatePdfPath filePath isAbsolute stat_result of
        Inl e \<Rightarrow> Inl e
      | Inr ok \<Rightarrow>
          (case parsed of
             Inl e \<Rightarrow> Inl e
           | Inr pdfData \<Rightarrow>
               Inr (JObject [(''success'', JBool True), (''text'', pdf_text pdfData),
                             (''pages'', pdf_numpages pdfData), (''info'', pdf_info pdfData)])))"
| "guarded_body (Load_settings loaded) =
     (case loaded of
        Inl e \<Rightarrow> Inl e
      | Inr settings \<Rightarrow> Inr (JObject [(''success'', JBool True), (''settings'', settings)]))"
| "guarded_body (Save_settings settings saved) =
     (case validateSettings settings of
        Inl e \<Rightarrow> Inl e
      | Inr ok \<Rightarrow>
          (case saved of
             Inl e \<Rightarrow> Inl e
           | Inr u \<Rightarrow> Inr (JObject [(''success'', JBool True)])))"
| "guarded_body (Load_template loaded) =
     (case loaded of
        Inl e \<Rightarrow> Inl e
      | Inr template \<Rightarrow> Inr (JObject [(''success'', JBool True), (''template'', template)]))"
| "guarded_body (Get_app_version version) =
     (case version of
        Inl e \<Rightarrow> Inl e
      | Inr v \<Rightarrow> Inr (JString v))"
| "guarded_body (Consult_agent agentType query consulted) =
     (case validateAgentType agentType of
        Inl e \<Rightarrow> Inl e
      | Inr ok \<Rightarrow>
          if \<not> truthy query \<or> typeof query \<noteq> ''string''
          then Inl (Error ''Invalid query: must be a non-empty string'')
          else if 10000 < js_length query
          then Inl (Error ''Query too long: maximum 10,000 characters allowed'')
          else
            (case consulted of
               Inl e \<Rightarrow> Inl e
             | Inr response \<Rightarrow>
                 Inr (JObject [(''success'', JBool True), (''response'', response)])))"

text \<open>What the handler of the channel answers when the rate limit is exceeded.\<close>

fun limited_response :: "request \<Rightarrow> js_value" where
  "limited_response (Load_settings loaded) =
     JObject [(''success'', JBool False),
              (''error'', JString ''Rate limit exceeded. Please try again later.''),
              (''settings'', JObject [])]"
| "limited_response req = rate_limit_response"

text \<open>The \<^verbatim>\<open>catch\<close> block of the channel's handler.\<close>

fun catch_block :: "request \<Rightarrow> js_value \<Rightarrow> js_value + js_value" where
  "catch_block (Load_settings loaded) error = error_response error [(''settings'', JObject [])]"
| "catch_block (Get_app_version version) error = Inr (JString ''1.0.0'')"
| "catch_block req error = error_response error []"

text \<open>
  A handler: inside \<^verbatim>\<open>try\<close>, the rate limit check of its channel and then the body. The
  result is what the handler returns (\<open>Inr\<close>) or throws to its caller (\<open>Inl\<close>), with
  the rate limit map as the call leaves it.
\<close>

definition handle :: "int \<Rightarrow> request \<Rightarrow> rate_map \<Rightarrow> (js_value + js_value) \<times> rate_map" where
  "handle now req m =
     (let limited = isRateLimited now (channel_of req) m
      in (try_catch
            (if fst limited then Inr (limited_response req) else guarded_body req)
            (catch_block req),
          snd limited))"

text \<open>
  An answer that reports a failure: an object with \<^verbatim>\<open>success: false\<close> and a string
  \<^verbatim>\<open>error\<close>.
\<close>

definition is_failure :: "js_value \<Rightarrow> bool" where
  "is_failure v =
     (case v of
        JObject ps \<Rightarrow>
          map_of ps ''success'' = Some (JBool False)
          \<and> (case map_of ps ''error'' of Some (JString s) \<Rightarrow> True | _ \<Rightarrow> False)
      | _ \<Rightarrow> False)"

definition failure_message :: "js_value \<Rightarrow> string option" where
  "failure_message v =
     (case v of
        JObject ps \<Rightarrow> (case map_of ps ''error'' of Some (JString s) \<Rightarrow> Some s | _ \<Rightarrow> None)
      | _ \<Rightarrow> None)"

text \<open>
  The failures of a request that has passed the rate limit: what the input validation of
  its channel throws, and otherwise what the environment throws to the handler.
\<close>

definition check_query :: "js_value \<Rightarrow> js_value + bool" where
  "check_query query =
     (if \<not> truthy query \<or> typeof query \<noteq> ''string''
      then Inl (Error ''Invalid query: must be a non-empty string'')
      else if 10000 < js_length query
      then Inl (Error ''Query too long: maximum 10,000 characters allowed'')
      else Inr True)"

fun validation :: "request \<Rightarrow> js_value + bool" where
  "validation (Save_agent agentData saved) = validateAgentData agentData"
| "validation (Process_pdf filePath isAbsolute stat_result parsed) =
     validatePdfPath filePath isAbsolute stat_result"
| "validation (Save_settings settings saved) = validateSettings settings"
| "validation (Consult_agent agentType query consulted) =
     (case validateAgentType agentType of Inl e \<Rightarrow> Inl e | Inr ok \<Rightarrow> check_query query)"
| "validation req = Inr True"

definition thrown :: "js_value + 'a \<Rightarrow> js_value option" where
  "thrown r = (case r of Inl e \<Rightarrow> Some e | Inr v \<Rightarrow> None)"

fun environment_error :: "request \<Rightarrow> js_value option" where
  "environment_error (Save_agent agentData saved) = thrown saved"
| "environment_error (Load_agents loaded) = thrown loaded"
| "environment_error (Get_existing_agents loaded) = thrown loaded"
| "environment_error (Process_pdf filePath isAbsolute stat_result parsed) = thrown parsed"
| "environment_error (Load_settings loaded) = thrown loaded"
| "environment_error (Save_settings settings saved) = thrown saved"
| "environment_error (Load_template loaded) = thrown loaded"
| "environment_error (Get_app_version version) = thrown version"
| "environment_error (Consult_agent agentType query consulted) = thrown consulted"

definition request_error :: "request \<Rightarrow> js_value option" where
  "request_error req =
     (case validation req of Inl e \<Rightarrow> Some e | Inr ok \<Rightarrow> environment_error req)"

text \<open>
  A thrown value that the sanitizer can read: it is neither \<^verbatim>\<open>null\<close> nor
  \<^verbatim>\<open>undefined\<close>, and its message is absent, falsy or a string. Every \<^verbatim>\<open>Error\<close> is
  such a value.
\<close>

definition error_like :: "js_value \<Rightarrow> bool" where
  "error_like e \<longleftrightarrow>
     e \<noteq> JUndefined \<and> e \<noteq> JNull
     \<and> (\<not> truthy (get_prop e ''message'') \<or> typeof (get_prop e ''message'') = ''string'')"

text \<open>All that the environment throws to the handler of a request.\<close>

fun environment_thrown :: "request \<Rightarrow> js_value list" where
  "environment_thrown (Save_agent agentData saved) = (case saved of Inl e \<Rightarrow> [e] | Inr v \<Rightarrow> [])"
| "environment_thrown (Load_agents loaded) = (case loaded of Inl e \<Rightarrow> [e] | Inr v \<Rightarrow> [])"
| "environment_thrown (Get_existing_agents loaded) =
     (case loaded of Inl e \<Rightarrow> [e] | Inr v \<Rightarrow> [])"
| "environment_thrown (Process_pdf filePath isAbsolute stat_result parsed) =
     (case stat_result of Inl e \<Rightarrow> [e] | Inr v \<Rightarrow> [])
     @ (case parsed of Inl e \<Rightarrow> [e] | Inr v \<Rightarrow> [])"
| "environment_thrown (Load_settings loaded) = (case loaded of Inl e \<Rightarrow> [e] | Inr v \<Rightarrow> [])"
| "environment_thrown (Save_settings settings saved) =
     (case saved of Inl e \<Rightarrow> [e] | Inr v \<Rightarrow> [])"
| "environment_thrown (Load_template loaded) = (case loaded of Inl e \<Rightarrow> [e] | Inr v \<Rightarrow> [])"
| "environment_thrown (Get_app_version version) = (case version of Inl e \<Rightarrow> [e] | Inr v \<Rightarrow> [])"
| "environment_thrown (Consult_agent agentType query consulted) =
     (case consulted of Inl e \<Rightarrow> [e] | Inr v \<Rightarrow> [])"

section \<open>Template data and documents\<close>

text \<open>
  The template data is an object with the eight category keys, each an array of strings
  (src/renderer/hooks/useAgentGenerator.js, lines 7-16). \<^verbatim>\<open>Object.values\<close> lists the
  arrays in the order of the keys.
\<close>

record templateData =
  coreFunctions :: "string list"
  domainExpertise :: "string list"
  inputTypes :: "string list"
  validationRules :: "string list"
  outputFormat :: "string list"
  performanceConstraints :: "string list"
  styleGuide :: "string list"
  integrationTargets :: "string list"

datatype category =
    CoreFunctions | DomainExpertise | InputTypes | ValidationRules
  | OutputFormat | PerformanceConstraints | StyleGuide | IntegrationTargets

text \<open>\<^verbatim>\<open>templateData[category]\<close> for one of the eight keys.\<close>

fun field :: "templateData \<Rightarrow> category \<Rightarrow> string list" where
  "field td CoreFunctions = coreFunctions td"
| "field td DomainExpertise = domainExpertise td"
| "field td InputTypes = inputTypes td"
| "field td ValidationRules = validationRules td"
| "field td OutputFormat = outputFormat td"
| "field td PerformanceConstraints = performanceConstraints td"
| "field td StyleGuide = styleGuide td"
| "field td IntegrationTargets = integrationTargets td"

definition object_values :: "templateData \<Rightarrow> string list list" where
  "object_values td =
     [coreFunctions td, domainExpertise td, inputTypes td, validationRules td,
      outputFormat td, performanceConstraints td, styleGuide td, integrationTargets td]"

text \<open>
  A document as \<^verbatim>\<open>addDocument\<close> stores it; \<^verbatim>\<open>text\<close> may be missing
  (\<^verbatim>\<open>doc.text?.length || 0\<close>).
\<close>

record document =
  doc_name :: string
  doc_path :: string
  doc_text :: "string option"
  doc_pages :: nat

section \<open>HeadArchitectAgent (src/renderer/services/agentGenerator.js)\<close>

record analysis =
  coreFunctionCount :: nat
  domainExpertiseCount :: nat
  hasDocuments :: bool
  documentCount :: nat
  totalDocumentPages :: nat
  complexity :: string
  suggestedConsultants :: "string list"

text \<open>The predicate \<^verbatim>\<open>(f) => f.trim()\<close>: a non-empty string is truthy.\<close>

definition filled :: "string \<Rightarrow> bool" where
  "filled f \<longleftrightarrow> trim f \<noteq> []"

definition agentKeywords :: "(string \<times> string list) list" where
  "agentKeywords =
    [(''backend-developer'', [''api'', ''backend'', ''server'', ''database'', ''rest'']),
     (''frontend-developer'', [''ui'', ''frontend'', ''react'', ''component'', ''interface'']),
     (''security-engineer'', [''security'', ''authentication'', ''authorization'', ''encryption'']),
     (''database-optimizer'', [''database'', ''query'', ''optimization'', ''sql'']),
     (''code-reviewer'', [''quality'', ''review'', ''best practice'', ''standards'']),
     (''documentation-engineer'', [''documentation'', ''readme'', ''guide'', ''manual'']),
     (''test-automator'', [''test'', ''testing'', ''qa'', ''validation'']),
     (''performance-engineer'', [''performance'', ''optimization'', ''speed'', ''efficiency''])]"

text \<open>
  \<^verbatim>\<open>suggestConsultants\<close>: the loop over \<^verbatim>\<open>Object.entries(agentKeywords)\<close> pushes an agent
  when \<^verbatim>\<open>keywords.some(...)\<close> holds; the result is \<^verbatim>\<open>consultants.slice(0, 3)\<close>.
\<close>

definition suggestConsultants :: "templateData \<Rightarrow> string list" where
  "suggestConsultants td =
     (let allText = toLowerCase (join '' '' (concat (object_values td)));
          consultants =
            foldl (\<lambda>consultants (agent, keywords).
                     if list_ex (\<lambda>keyword. str_includes allText keyword) keywords
                     then consultants @ [agent] else consultants)
              [] agentKeywords
      in take 3 consultants)"

definition analyzeInputData :: "templateData \<Rightarrow> document list \<Rightarrow> analysis" where
  "analyzeInputData td documents =
     (let analysis0 =
            \<lparr> coreFunctionCount = length (filter filled (coreFunctions td)),
              domainExpertiseCount = length (filter filled (domainExpertise td)),
              hasDocuments = (0 < length documents),
              documentCount = length documents,
              totalDocumentPages = foldl (\<lambda>sum doc. sum + doc_pages doc) 0 documents,
              complexity = ''simple'',
              suggestedConsultants = [] \<rparr>;
          totalFields =
            foldl (\<lambda>sum category. sum + length (filter filled category)) 0 (object_values td);
          analysis1 =
            (if 50 < totalFields \<or> 5 < length documents
             then analysis0\<lparr>complexity := ''complex''\<rparr>
             else if 20 < totalFields \<or> 2 < length documents
             then analysis0\<lparr>complexity := ''moderate''\<rparr>
             else analysis0)
      in analysis1\<lparr>suggestedConsultants := suggestConsultants td\<rparr>)"

section \<open>TemplateProcessor (src/renderer/services/templateProcessor.js)\<close>

definition categories :: "category list" where
  "categories =
     [CoreFunctions, DomainExpertise, InputTypes, ValidationRules,
      OutputFormat, PerformanceConstraints, StyleGuide, IntegrationTargets]"

text \<open>The predicate \<^verbatim>\<open>item => item && item.trim() !== ''\<close>.\<close>

definition nonempty_item :: "string \<Rightarrow> bool" where
  "nonempty_item item \<longleftrightarrow> item \<noteq> [] \<and> trim item \<noteq> []"

definition estimateComplexity :: "templateData \<Rightarrow> document list \<Rightarrow> string" where
  "estimateComplexity td documents =
     (let totalFields =
            foldl (\<lambda>total category. total + length (filter nonempty_item (field td category)))
              0 categories;
          documentCount = length documents
      in if 50 < totalFields \<or> 5 < documentCount then ''high''
         else if 15 < totalFields \<or> 2 < documentCount then ''medium''
         else ''low'')"

text \<open>
  The number of filled fields of a template: the entries, over all categories, that are
  not blank.
\<close>

definition filled_fields :: "templateData \<Rightarrow> nat" where
  "filled_fields td = length (filter filled (concat (object_values td)))"

section \<open>createSpecification (src/renderer/services/agentGenerator.js)\<close>

text \<open>
  A consultation is what \<^verbatim>\<open>consultAgent\<close> returned for an agent; the list may hold
  \<^verbatim>\<open>null\<close> (\<open>None\<close>), and \<^verbatim>\<open>agentType\<close> may be missing.
\<close>

record consultation =
  c_agentType :: "string option"
  c_available :: bool

text \<open>\<^verbatim>\<open>sections.push(line)\<close>, and a run of pushes.\<close>

definition push :: "string list \<Rightarrow> string \<Rightarrow> string list" where
  "push sections line = sections @ [line]"

definition push_lines :: "string list \<Rightarrow> string list \<Rightarrow> string list" where
  "push_lines sections lines = foldl push sections lines"

text \<open>
  The header; \<open>generated\<close> is \<^verbatim>\<open>new Date().toISOString()\<close>.
\<close>

definition push_header ::
    "string \<Rightarrow> string \<Rightarrow> analysis \<Rightarrow> string \<Rightarrow> string list \<Rightarrow> string list" where
  "push_header agentName agentType an generated sections =
     push_lines sections
       [''# Subagent: '' @ agentName,
        '''',
        ''**Generated**: '' @ generated,
        ''**Version**: 1.0.0'',
        ''**Type**: '' @ agentType,
        ''**Complexity**: '' @ complexity an,
        '''',
        ''---'',
        '''']"

text \<open>
  The overview numbers the filled core functions:
  \<^verbatim>\<open>.filter((f) => f.trim()).forEach((func, i) => sections.push(`${i + 1}. ${func}`))\<close>.
\<close>

definition push_overview :: "string \<Rightarrow> templateData \<Rightarrow> string list \<Rightarrow> string list" where
  "push_overview agentType td sections =
     (let s1 = push_lines sections
                 [''## Overview'',
                  ''This is a specialized '' @ agentType @ '' subagent designed for:''];
          s2 = foldl (\<lambda>s (i, func). push s (show_nat (i + 1) @ ''. '' @ func)) s1
                 (enumerate 0 (filter filled (coreFunctions td)))
      in push s2 '''')"

text \<open>
  The eight category blocks have one shape:
  \<^verbatim>\<open>if (entries.some((f) => f.trim())) { push the headings; push `- ${entry}` for each filled
  entry; push '' }\<close>.
\<close>

definition push_category :: "string list \<Rightarrow> string list \<Rightarrow> string list \<Rightarrow> string list" where
  "push_category headings entries sections =
     (if list_ex filled entries
      then push (foldl (\<lambda>s entry. push s (''- '' @ entry))
                   (push_lines sections headings) (filter filled entries)) ''''
      else sections)"

definition document_line :: "document \<Rightarrow> string" where
  "document_line doc =
     ''- **'' @ doc_name doc @ ''** ('' @ show_nat (doc_pages doc) @ '' pages, ''
       @ show_nat (case doc_text doc of None \<Rightarrow> 0 | Some t \<Rightarrow> length t) @ '' characters)''"

definition push_documents :: "document list \<Rightarrow> string list \<Rightarrow> string list" where
  "push_documents docs sections =
     (if 0 < length docs
      then
        (let s1 = push_lines sections
                    [''## Contextual Documentation'',
                     '''',
                     ''This subagent was generated with '' @ show_nat (length docs)
                       @ '' supporting document(s):''];
             s2 = foldl (\<lambda>s doc. push s (document_line doc)) s1 docs
         in push_lines s2
              ['''',
               ''### Key Insights from Documents'',
               ''The uploaded documents provide additional context and requirements that should be considered in the implementation.'',
               ''''])
      else sections)"

text \<open>\<^verbatim>\<open>if (c && c.agentType)\<close>: the consultation is there and its type is a non-empty string.\<close>

definition named :: "consultation option \<Rightarrow> bool" where
  "named c =
     (case c of
        None \<Rightarrow> False
      | Some r \<Rightarrow> (case c_agentType r of None \<Rightarrow> False | Some t \<Rightarrow> t \<noteq> []))"

definition consultation_line :: "consultation option \<Rightarrow> string" where
  "consultation_line c =
     (case c of
        None \<Rightarrow> []
      | Some r \<Rightarrow>
          ''- **'' @ (case c_agentType r of None \<Rightarrow> [] | Some t \<Rightarrow> t) @ ''**: ''
            @ (if c_available r then ''Provided guidance'' else ''Not available''))"

definition push_consultations :: "consultation option list \<Rightarrow> string list \<Rightarrow> string list" where
  "push_consultations consultations sections =
     (if 0 < length consultations
      then
        (let s1 = push_lines sections
                    [''## Expert Consultations'',
                     '''',
                     ''This subagent design was informed by consulting the following expert agents:''];
             s2 = foldl (\<lambda>s c. if named c then push s (consultation_line c) else s)
                    s1 consultations
         in push s2 '''')
      else sections)"

definition push_quality_and_usage :: "string \<Rightarrow> string list \<Rightarrow> string list" where
  "push_quality_and_usage agentType sections =
     push_lines sections
       [''## Quality Criteria'',
        '''',
        ''This subagent must meet the following quality standards:'',
        ''- Production-ready code, not proof-of-concept'',
        ''- Comprehensive error handling with informative messages'',
        ''- Type hints for all functions where applicable'',
        ''- Inline documentation for complex logic'',
        ''- Test coverage for critical functionality'',
        ''- Idempotent operations where applicable'',
        '''',
        ''## Usage Instructions'',
        '''',
        ''This subagent should be used for tasks related to '' @ agentType @ ''.'',
        ''Import and integrate according to your project structure.'',
        '''']"

definition footer_line :: "analysis \<Rightarrow> consultation option list \<Rightarrow> string" where
  "footer_line an consultations =
     ''*Head Architect: Complexity '' @ complexity an @ '', ''
       @ show_nat (length consultations) @ '' consultations*''"

definition push_footer :: "analysis \<Rightarrow> consultation option list \<Rightarrow> string list \<Rightarrow> string list" where
  "push_footer an consultations sections =
     push_lines sections
       [''---'',
        '''',
        ''*Generated by Claude Subagent Generator v1.0.0*'',
        footer_line an consultations]"

text \<open>The array \<^verbatim>\<open>sections\<close> when the function returns, in the order of the pushes.\<close>

definition specification_sections ::
    "string \<Rightarrow> string \<Rightarrow> templateData \<Rightarrow> document list \<Rightarrow> analysis
      \<Rightarrow> consultation option list \<Rightarrow> string \<Rightarrow> string list" where
  "specification_sections agentName agentType td docs an consultations generated =
     (push_footer an consultations
      \<circ> push_quality_and_usage agentType
      \<circ> push_consultations consultations
      \<circ> push_documents docs
      \<circ> push_category [''### Integration Points'', ''Must interface with:'']
          (integrationTargets td)
      \<circ> push_category [''## Implementation Guidelines'', '''', ''### Code Style'']
          (styleGuide td)
      \<circ> push_category [''### Performance Constraints''] (performanceConstraints td)
      \<circ> push_category [''### Output Contract'', ''**Return format:**''] (outputFormat td)
      \<circ> push_category [''### Validation Rules''] (validationRules td)
      \<circ> push_category [''### Input Interface'', ''**Expected inputs:**''] (inputTypes td)
      \<circ> (\<lambda>s. push_lines s [''## Technical Requirements'', ''''])
      \<circ> push_category [''### Domain Expertise''] (domainExpertise td)
      \<circ> push_category [''### Primary Functions''] (coreFunctions td)
      \<circ> (\<lambda>s. push_lines s [''## Core Specifications'', ''''])
      \<circ> push_overview agentType td
      \<circ> push_header agentName agentType an generated) []"

text \<open>\<^verbatim>\<open>return sections.join('\n')\<close>.\<close>

definition createSpecification ::
    "string \<Rightarrow> string \<Rightarrow> templateData \<Rightarrow> document list \<Rightarrow> analysis
      \<Rightarrow> consultation option list \<Rightarrow> string \<Rightarrow> string" where
  "createSpecification agentName agentType td docs an consultations generated =
     join [CHR 0x0A]
       (specification_sections agentName agentType td docs an consultations generated)"

text \<open>
  The layout in words, without the pushes of the source. The header begins with the
  agent name; the overview numbers the core functions that are not blank.
\<close>

definition header_lines :: "string \<Rightarrow> string \<Rightarrow> string \<Rightarrow> string \<Rightarrow> string list" where
  "header_lines agentName agentType tier generated =
     [''# Subagent: '' @ agentName,
      '''',
      ''**Generated**: '' @ generated,
      ''**Version**: 1.0.0'',
      ''**Type**: '' @ agentType,
      ''**Complexity**: '' @ tier,
      '''',
      ''---'',
      '''']"

definition overview_lines :: "string \<Rightarrow> string list \<Rightarrow> string list" where
  "overview_lines agentType functions =
     [''## Overview'',
      ''This is a specialized '' @ agentType @ '' subagent designed for:'']
     @ map (\<lambda>(i, func). show_nat (i + 1) @ ''. '' @ func)
         (enumerate 0 (filter (\<lambda>func. trim func \<noteq> []) functions))
     @ ['''']"

text \<open>
  A category's section is its headings, one list item for each entry that is not blank,
  and an empty line; it is there only when the category has such an entry.
\<close>

definition category_section :: "string list \<Rightarrow> string list \<Rightarrow> string list" where
  "category_section headings entries =
     (if \<exists>entry \<in> set entries. trim entry \<noteq> []
      then headings @ map (\<lambda>entry. ''- '' @ entry) (filter (\<lambda>entry. trim entry \<noteq> []) entries)
           @ ['''']
      else [])"

text \<open>The documents' section has one list item for each document.\<close>

definition documents_section :: "document list \<Rightarrow> string list" where
  "documents_section docs =
     (if docs = [] then []
      else [''## Contextual Documentation'',
            '''',
            ''This subagent was generated with '' @ show_nat (length docs)
              @ '' supporting document(s):'']
           @ map (\<lambda>doc. ''- **'' @ doc_name doc @ ''** ('' @ show_nat (doc_pages doc)
                          @ '' pages, ''
                          @ show_nat (case doc_text doc of None \<Rightarrow> 0 | Some t \<Rightarrow> length t)
                          @ '' characters)'') docs
           @ ['''',
              ''### Key Insights from Documents'',
              ''The uploaded documents provide additional context and requirements that should be considered in the implementation.'',
              ''''])"

text \<open>
  The consultations' section is there only when the list of consultations is not empty;
  it has one list item, with the agent type in bold and whether the agent was available,
  for each consultation that has an agent type, and none for the others.
\<close>

definition consultation_items :: "consultation option \<Rightarrow> string list" where
  "consultation_items c =
     (case c of
        None \<Rightarrow> []
      | Some r \<Rightarrow>
          (case c_agentType r of
             None \<Rightarrow> []
           | Some t \<Rightarrow>
               if t = [] then []
               else [''- **'' @ t @ ''**: ''
                       @ (if c_available r then ''Provided guidance'' else ''Not available'')]))"

definition consultations_section :: "consultation option list \<Rightarrow> string list" where
  "consultations_section consultations =
     (if consultations = [] then []
      else [''## Expert Consultations'', '''',
            ''This subagent design was informed by consulting the following expert agents:'']
           @ concat (map consultation_items consultations)
           @ [''''])"

text \<open>
  The quality criteria, the usage instructions and the footer, whose last line states
  the complexity tier and the number of consultations.
\<close>

definition closing_lines :: "string \<Rightarrow> string \<Rightarrow> nat \<Rightarrow> string list" where
  "closing_lines agentType tier consulted =
     [''## Quality Criteria'',
      '''',
      ''This subagent must meet the following quality standards:'',
      ''- Production-ready code, not proof-of-concept'',
      ''- Comprehensive error handling with informative messages'',
      ''- Type hints for all functions where applicable'',
      ''- Inline documentation for complex logic'',
      ''- Test coverage for critical functionality'',
      ''- Idempotent operations where applicable'',
      '''',
      ''## Usage Instructions'',
      '''',
      ''This subagent should be used for tasks related to '' @ agentType @ ''.'',
      ''Import and integrate according to your project structure.'',
      '''',
      ''---'',
      '''',
      ''*Generated by Claude Subagent Generator v1.0.0*'',
      ''*Head Architect: Complexity '' @ tier @ '', '' @ show_nat consulted
        @ '' consultations*'']"

section \<open>The useAgentGenerator hook (src/renderer/hooks/useAgentGenerator.js)\<close>

text \<open>
  The hook's five \<^verbatim>\<open>useState\<close> cells form the state; \<^verbatim>\<open>null\<close> is \<open>None\<close>. Each
  operation is the function from the state before to the state after all its
  \<^verbatim>\<open>set...\<close> calls have been applied.
\<close>

record generated_agent =
  ga_name :: string
  ga_type :: string
  ga_templateData :: templateData
  ga_documents :: "document list"
  ga_timestamp :: string

record hook_state =
  loading :: bool
  error :: "string option"
  generatedAgent :: "generated_agent option"
  templateData :: templateData
  documents :: "document list"

text \<open>\<^verbatim>\<open>Array(12).fill('')\<close> for each of the eight keys.\<close>

definition initial_templateData :: templateData where
  "initial_templateData =
     \<lparr> coreFunctions = replicate 12 '''',
       domainExpertise = replicate 12 '''',
       inputTypes = replicate 12 '''',
       validationRules = replicate 12 '''',
       outputFormat = replicate 12 '''',
       performanceConstraints = replicate 12 '''',
       styleGuide = replicate 12 '''',
       integrationTargets = replicate 12 '''' \<rparr>"

definition initial_state :: hook_state where
  "initial_state =
     \<lparr> loading = False, error = None, generatedAgent = None,
       templateData = initial_templateData, documents = [] \<rparr>"

text \<open>The object \<^verbatim>\<open>{...prev, [category]: v}\<close> for one of the eight keys.\<close>

fun set_field :: "category \<Rightarrow> string list \<Rightarrow> templateData \<Rightarrow> templateData" where
  "set_field CoreFunctions v td = td\<lparr>coreFunctions := v\<rparr>"
| "set_field DomainExpertise v td = td\<lparr>domainExpertise := v\<rparr>"
| "set_field InputTypes v td = td\<lparr>inputTypes := v\<rparr>"
| "set_field ValidationRules v td = td\<lparr>validationRules := v\<rparr>"
| "set_field OutputFormat v td = td\<lparr>outputFormat := v\<rparr>"
| "set_field PerformanceConstraints v td = td\<lparr>performanceConstraints := v\<rparr>"
| "set_field StyleGuide v td = td\<lparr>styleGuide := v\<rparr>"
| "set_field IntegrationTargets v td = td\<lparr>integrationTargets := v\<rparr>"

text \<open>
  \<^verbatim>\<open>prev[category].map((item, i) => (i === index ? value : item))\<close>; the index is an
  integer, compared with each position of the array.
\<close>

definition updateTemplateField :: "category \<Rightarrow> int \<Rightarrow> string \<Rightarrow> hook_state \<Rightarrow> hook_state" where
  "updateTemplateField category index val st =
     st\<lparr>templateData :=
          set_field category
            (map (\<lambda>(i, item). if int i = index then val else item)
               (enumerate 0 (field (templateData st) category)))
            (templateData st)\<rparr>"

record file_ref =
  file_name :: string
  file_path :: string

text \<open>
  What \<^verbatim>\<open>window.electronAPI.processPDF\<close> gives: a result with \<^verbatim>\<open>success\<close> true (text
  and pages), a result with \<^verbatim>\<open>success\<close> false (its error string), or a rejection (the
  message of the error).
\<close>

datatype pdf_result =
    PdfSuccess "string option" nat
  | PdfFailure string
  | PdfRejected string

text \<open>
  \<^verbatim>\<open>addDocument\<close> is built by \<^verbatim>\<open>useCallback\<close> with the dependency
  \<^verbatim>\<open>documents.length\<close>: the guard reads the length that the list had in the render that
  built the callback (\<open>documents_length\<close>), while \<^verbatim>\<open>setDocuments((prev) => [...prev, doc])\<close>
  appends to the list as it is when the update is applied.
\<close>

definition addDocument :: "nat \<Rightarrow> file_ref \<Rightarrow> pdf_result \<Rightarrow> hook_state \<Rightarrow> hook_state" where
  "addDocument documents_length f result st =
     (if 12 \<le> documents_length
      then st\<lparr>error := Some ''Maximum 12 documents allowed''\<rparr>
      else
        (case result of
           PdfSuccess txt pages \<Rightarrow>
             st\<lparr>documents := documents st @
                   [\<lparr> doc_name = file_name f, doc_path = file_path f,
                      doc_text = txt, doc_pages = pages \<rparr>],
                error := None, loading := False\<rparr>
         | PdfFailure e \<Rightarrow> st\<lparr>error := Some e, loading := False\<rparr>
         | PdfRejected msg \<Rightarrow> st\<lparr>error := Some msg, loading := False\<rparr>))"

text \<open>\<^verbatim>\<open>prev.filter((_, i) => i !== index)\<close>.\<close>

definition removeDocument :: "int \<Rightarrow> hook_state \<Rightarrow> hook_state" where
  "removeDocument index st =
     st\<lparr>documents := map snd (filter (\<lambda>(i, _). int i \<noteq> index) (enumerate 0 (documents st)))\<rparr>"

text \<open>
  \<^verbatim>\<open>generateAgent\<close> reads \<^verbatim>\<open>templateData\<close> and \<^verbatim>\<open>documents\<close> of the render that built
  it (the arguments \<open>td\<close> and \<open>docs\<close>); \<open>timestamp\<close> is \<^verbatim>\<open>new Date().toISOString()\<close>.
\<close>

definition generateAgent ::
    "templateData \<Rightarrow> document list \<Rightarrow> string \<Rightarrow> string \<Rightarrow> string \<Rightarrow> hook_state \<Rightarrow> hook_state" where
  "generateAgent td docs agentName agentType timestamp st =
     st\<lparr>error := None,
        generatedAgent := Some \<lparr> ga_name = agentName, ga_type = agentType,
          ga_templateData = td, ga_documents = docs, ga_timestamp = timestamp \<rparr>,
        loading := False\<rparr>"

datatype save_result = SaveSuccess | SaveFailure string | SaveRejected string

definition saveAgent :: "save_result \<Rightarrow> hook_state \<Rightarrow> hook_state" where
  "saveAgent result st =
     (case result of
        SaveSuccess \<Rightarrow> st\<lparr>error := None, loading := False\<rparr>
      | SaveFailure e \<Rightarrow> st\<lparr>error := Some e, loading := False\<rparr>
      | SaveRejected msg \<Rightarrow> st\<lparr>error := Some msg, loading := False\<rparr>)"

definition resetForm :: "hook_state \<Rightarrow> hook_state" where
  "resetForm st =
     st\<lparr>templateData := initial_templateData, documents := [],
        generatedAgent := None, error := None\<rparr>"

text \<open>The operations of the hook, with what their environment answers.\<close>

datatype hook_op =
    UpdateTemplateField category int string
  | AddDocument nat file_ref pdf_result
  | RemoveDocument int
  | GenerateAgent templateData "document list" string string string
  | SaveAgent save_result
  | ResetForm

fun hook_step :: "hook_state \<Rightarrow> hook_op \<Rightarrow> hook_state" where
  "hook_step st (UpdateTemplateField category index val) =
     updateTemplateField category index val st"
| "hook_step st (AddDocument documents_length f result) =
     addDocument documents_length f result st"
| "hook_step st (RemoveDocument index) = removeDocument index st"
| "hook_step st (GenerateAgent td docs agentName agentType timestamp) =
     generateAgent td docs agentName agentType timestamp st"
| "hook_step st (SaveAgent result) = saveAgent result st"
| "hook_step st ResetForm = resetForm st"

text \<open>The invariant of the template data: every category has twelve slots.\<close>

definition all_twelve :: "hook_state \<Rightarrow> bool" where
  "all_twelve st \<longleftrightarrow> list_all (\<lambda>c. length (field (templateData st) c) = 12) categories"

subsection \<open>DocumentUpload (src/renderer/components/DocumentUpload.jsx)\<close>

text \<open>
  \<^verbatim>\<open>handleFileSelect\<close> runs \<^verbatim>\<open>await agentGenerator.addDocument(...)\<close> for each selected
  file of type \<^verbatim>\<open>application/pdf\<close>. The handler belongs to one render of the component:
  \<^verbatim>\<open>agentGenerator\<close>, and with it \<^verbatim>\<open>addDocument\<close> and the length its guard reads
  (\<open>rendered_length\<close>), stay those of that render for the whole loop. Each selected file
  comes with the answer of \<^verbatim>\<open>processPDF\<close> for it.
\<close>

record selected_file =
  sel_name :: string
  sel_path :: string
  sel_type :: string

fun handleFileSelect ::
    "nat \<Rightarrow> (selected_file \<times> pdf_result) list \<Rightarrow> hook_state \<Rightarrow> hook_state" where
  "handleFileSelect rendered_length [] st = st"
| "handleFileSelect rendered_length ((f, result) # files) st =
     (if sel_type f = ''application/pdf''
      then handleFileSelect rendered_length files
             (addDocument rendered_length
                \<lparr> file_name = sel_name f, file_path = sel_path f \<rparr> result st)
      else handleFileSelect rendered_length files st)"

section \<open>Properties of the rate limiter\<close>

lemma channel_limit_pos: "channel_limit channel = Quota n \<Longrightarrow> 0 < n"
  by (auto simp: channel_limit_def split: option.splits if_splits)

lemma isRateLimited_verdict:
  "fst (isRateLimited now channel m)
     \<longleftrightarrow> limit_reached (length (filter (in_window now) (stored m channel)))
           (channel_limit channel)"
  by (simp add: isRateLimited_def Let_def stored_def)

lemma limit_reached_iff:
  "limit_reached len l \<longleftrightarrow> (\<exists>n. l = Quota n \<and> n \<le> len)"
  by (cases l) simp_all

lemma isRateLimited_fresh: "\<not> fst (isRateLimited now channel Map.empty)"
  using channel_limit_pos [of channel]
  by (cases "channel_limit channel") (simp_all add: isRateLimited_verdict stored_def)

lemma isRateLimited_stored_same:
  "stored (snd (isRateLimited now channel m)) channel =
     (if fst (isRateLimited now channel m)
      then filter (in_window now) (stored m channel)
      else filter (in_window now) (stored m channel) @ [now])"
  by (simp add: isRateLimited_def Let_def stored_def)

lemma isRateLimited_stored_other:
  "c \<noteq> channel \<Longrightarrow> stored (snd (isRateLimited now channel m)) c = stored m c"
  by (simp add: isRateLimited_def Let_def stored_def)

lemma serve_snoc: "serve (calls @ [call]) = serve_step (serve calls) call"
  by (simp add: serve_def)

lemma serve_Nil: "serve [] = ([], Map.empty)"
  by (simp add: serve_def)

lemma in_window_mono:
  "t' \<le> now \<Longrightarrow> in_window now t \<Longrightarrow> in_window t' t"
  by (simp add: in_window_def)

lemma filter_window_twice:
  "t' \<le> now \<Longrightarrow> filter (in_window now) (filter (in_window t') xs) = filter (in_window now) xs"
  by (induction xs) (auto dest: in_window_mono)

text \<open>
  With a clock that does not run backwards, what the map keeps for a channel and the log of
  admitted calls agree on every window that ends at or after the last call.
\<close>

lemma serve_window_agree:
  assumes "sorted (map fst calls)" and "\<forall>t \<in> set (map fst calls). t \<le> now"
  shows "filter (in_window now) (stored (snd (serve calls)) channel)
           = admitted_in_window now channel (fst (serve calls))"
  using assms
proof (induction calls arbitrary: now rule: rev_induct)
  case Nil
  show ?case by (simp add: serve_Nil stored_def admitted_in_window_def)
next
  case (snoc call calls)
  obtain t c where call: "call = (t, c)" by (cases call)
  from snoc.prems have srt: "sorted (map fst calls)"
    and below: "\<forall>u \<in> set (map fst calls). u \<le> t" and tnow: "t \<le> now"
    by (auto simp: call sorted_append)
  have below_now: "\<forall>u \<in> set (map fst calls). u \<le> now"
    using below tnow by auto
  note IHnow = snoc.IH [OF srt below_now]
  note IHt = snoc.IH [OF srt below]
  let ?s = "serve calls"
  show ?case
  proof (cases "c = channel")
    case False
    then have "stored (snd (serve (calls @ [call]))) channel = stored (snd ?s) channel"
      by (simp add: serve_snoc serve_step_def call Let_def isRateLimited_stored_other)
    moreover have "admitted_in_window now channel (fst (serve (calls @ [call])))
        = admitted_in_window now channel (fst ?s)"
      using False by (simp add: serve_snoc serve_step_def call Let_def admitted_in_window_def)
    ultimately show ?thesis using IHnow by simp
  next
    case True
    show ?thesis
    proof (cases "fst (isRateLimited t c (snd ?s))")
      case True
      then have "stored (snd (serve (calls @ [call]))) channel
          = filter (in_window t) (stored (snd ?s) channel)"
        using \<open>c = channel\<close>
        by (simp add: serve_snoc serve_step_def call Let_def isRateLimited_stored_same)
      moreover have "fst (serve (calls @ [call])) = fst ?s"
        using True by (simp add: serve_snoc serve_step_def call Let_def)
      ultimately show ?thesis
        using IHnow tnow by (simp add: filter_window_twice del: filter_filter)
    next
      case False
      then have "stored (snd (serve (calls @ [call]))) channel
          = filter (in_window t) (stored (snd ?s) channel) @ [t]"
        using \<open>c = channel\<close>
        by (simp add: serve_snoc serve_step_def call Let_def isRateLimited_stored_same)
      moreover have "fst (serve (calls @ [call])) = fst ?s @ [call]"
        using False by (simp add: serve_snoc serve_step_def call Let_def)
      moreover have "in_window now t \<longleftrightarrow> in_window now (fst call)"
        by (simp add: call)
      ultimately show ?thesis
        using IHnow tnow \<open>c = channel\<close>
        by (simp add: filter_window_twice admitted_in_window_def call del: filter_filter)
    qed
  qed
qed


lemma channel_limit_table:
  "channel_limit channel =
     (case map_of RATE_LIMITS channel of
        Some n \<Rightarrow> Quota n
      | None \<Rightarrow> if channel \<in> set object_prototype_properties then NotANumber else Quota 10)"
  by (simp add: channel_limit_def RATE_LIMITS_def)

lemma serve_stored_length:
  "channel_limit channel = Quota n \<Longrightarrow> length (stored (snd (serve calls)) channel) \<le> n"
proof (induction calls rule: rev_induct)
  case Nil
  show ?case by (simp add: serve_Nil stored_def)
next
  case (snoc call calls)
  let ?m = "snd (serve calls)"
  have len: "length (filter (in_window (fst call)) (stored ?m channel)) \<le> n"
    using snoc le_trans [OF length_filter_le] by blast
  show ?case
  proof (cases "snd call = channel")
    case False
    then show ?thesis
      using snoc by (simp add: serve_snoc serve_step_def Let_def isRateLimited_stored_other)
  next
    case True
    then show ?thesis
      using len snoc.prems
      by (auto simp: serve_snoc serve_step_def Let_def isRateLimited_stored_same
          isRateLimited_verdict)
  qed
qed

lemma serve_stored_times:
  "set (stored (snd (serve calls)) channel) \<subseteq> fst ` set calls"
proof (induction calls rule: rev_induct)
  case Nil
  show ?case by (simp add: serve_Nil stored_def)
next
  case (snoc call calls)
  show ?case
  proof (cases "snd call = channel")
    case False
    then show ?thesis
      using snoc.IH by (auto simp: serve_snoc serve_step_def Let_def isRateLimited_stored_other)
  next
    case True
    then show ?thesis
      using snoc.IH
      by (auto simp: serve_snoc serve_step_def Let_def isRateLimited_stored_same)
  qed
qed

text \<open>
  C1 (as amended). With a clock that does not run backwards, a request on a channel whose
  quota is a number is rejected exactly when the number of earlier admitted requests of
  that channel whose timestamps lie in the window of 60000 ms before the request has
  reached the quota. The quota is the channel's entry of \<open>RATE_LIMITS\<close>, and 10 for a
  name that is neither listed nor a property inherited from \<^verbatim>\<open>Object.prototype\<close>; for
  an inherited name the limit is not a number and no request is rejected. An admitted
  request is recorded: the channel's stored window is then the admitted timestamps of
  the window followed by the request's own timestamp.
\<close>

theorem isRateLimited_sliding_window:
  assumes "sorted (map fst (calls @ [(now, channel)]))"
  shows "(fst (isRateLimited now channel (snd (serve calls)))
            \<longleftrightarrow> (\<exists>n. channel_limit channel = Quota n
                  \<and> n \<le> length (admitted_in_window now channel (fst (serve calls)))))
       \<and> channel_limit channel
            = (case map_of RATE_LIMITS channel of
                 Some n \<Rightarrow> Quota n
               | None \<Rightarrow>
                   if channel \<in> set object_prototype_properties then NotANumber else Quota 10)
       \<and> admitted_in_window now channel (fst (serve calls))
            = filter (\<lambda>t. now - t < 60000)
                (map fst (filter (\<lambda>c. snd c = channel) (fst (serve calls))))
       \<and> (\<not> fst (isRateLimited now channel (snd (serve calls))) \<longrightarrow>
            stored (snd (isRateLimited now channel (snd (serve calls)))) channel
              = admitted_in_window now channel (fst (serve calls)) @ [now]
          \<and> fst (serve (calls @ [(now, channel)])) = fst (serve calls) @ [(now, channel)])
       \<and> (fst (isRateLimited now channel (snd (serve calls))) \<longrightarrow>
            fst (serve (calls @ [(now, channel)])) = fst (serve calls))"
proof -
  from assms have srt: "sorted (map fst calls)"
    and below: "\<forall>t \<in> set (map fst calls). t \<le> now"
    by (auto simp: sorted_append)
  have agree: "filter (in_window now) (stored (snd (serve calls)) channel)
      = admitted_in_window now channel (fst (serve calls))"
    by (rule serve_window_agree [OF srt below])
  have unfolded: "admitted_in_window now channel (fst (serve calls))
      = filter (\<lambda>t. now - t < 60000)
          (map fst (filter (\<lambda>c. snd c = channel) (fst (serve calls))))"
    by (simp add: admitted_in_window_def in_window_def [abs_def] RATE_LIMIT_WINDOW_def)
  have verdict: "fst (isRateLimited now channel (snd (serve calls)))
      \<longleftrightarrow> (\<exists>n. channel_limit channel = Quota n
            \<and> n \<le> length (admitted_in_window now channel (fst (serve calls))))"
    by (simp add: isRateLimited_verdict limit_reached_iff agree)
  have recorded: "stored (snd (isRateLimited now channel (snd (serve calls)))) channel
        = admitted_in_window now channel (fst (serve calls)) @ [now]
      \<and> fst (serve (calls @ [(now, channel)])) = fst (serve calls) @ [(now, channel)]"
    if "\<not> fst (isRateLimited now channel (snd (serve calls)))"
    using that agree by (simp add: isRateLimited_stored_same serve_snoc serve_step_def Let_def)
  have skip: "fst (serve (calls @ [(now, channel)])) = fst (serve calls)"
    if "fst (isRateLimited now channel (snd (serve calls)))"
    using that by (simp add: serve_snoc serve_step_def Let_def)
  show ?thesis
    using verdict channel_limit_table [of channel] unfolded recorded skip by blast
qed

theorem isRateLimited_sliding_window_witness:
  "sorted (map fst ([(0::int, ''process-pdf''), (10, ''process-pdf''), (20, ''load-agents''),
        (30, ''process-pdf''), (40, ''process-pdf''), (50, ''process-pdf'')]
        @ [(60, ''process-pdf'')]))
   \<and> fst (isRateLimited 60 ''process-pdf''
        (snd (serve [(0, ''process-pdf''), (10, ''process-pdf''), (20, ''load-agents''),
          (30, ''process-pdf''), (40, ''process-pdf''), (50, ''process-pdf'')])))
   \<and> channel_limit ''process-pdf'' = Quota 5
   \<and> length (admitted_in_window 60 ''process-pdf''
        (fst (serve [(0, ''process-pdf''), (10, ''process-pdf''), (20, ''load-agents''),
          (30, ''process-pdf''), (40, ''process-pdf''), (50, ''process-pdf'')]))) = 5"
proof -
  let ?calls = "[(0, ''process-pdf''), (10, ''process-pdf''), (20, ''load-agents''),
        (30, ''process-pdf''), (40, ''process-pdf''), (50, ''process-pdf'')] :: (int \<times> string) list"
  have srt: "sorted (map fst (?calls @ [(60, ''process-pdf'')]))" by simp
  have lim: "channel_limit ''process-pdf'' = Quota 5"
    by (simp add: channel_limit_def RATE_LIMITS_def)
  have log: "fst (serve ?calls) = ?calls"
    by (simp add: serve_def serve_step_def isRateLimited_def Let_def stored_def
        channel_limit_def RATE_LIMITS_def in_window_def RATE_LIMIT_WINDOW_def)
  have len: "length (admitted_in_window 60 ''process-pdf'' (fst (serve ?calls))) = 5"
    unfolding log by (simp add: admitted_in_window_def in_window_def RATE_LIMIT_WINDOW_def)
  from isRateLimited_sliding_window [OF srt] lim len
  have "fst (isRateLimited 60 ''process-pdf'' (snd (serve ?calls)))" by simp
  with srt lim len show ?thesis by blast
qed

text \<open>
  C1 as the specification words it fails twice. The name \<^verbatim>\<open>constructor\<close> is not listed
  in the table, yet its eleventh request within the window is admitted although ten
  admitted requests lie in the window: the default quota 10 does not apply to it. And when
  the clock runs backwards the window no longer holds all the admitted requests: after
  requests at 0, 1, 2, 3, 4 and 100000 on \<^verbatim>\<open>process-pdf\<close> (quota 5), a request at 5 has six
  admitted requests less than 60000 ms before it and is admitted.
\<close>

theorem isRateLimited_sliding_window_counterexample:
  "map_of RATE_LIMITS ''constructor'' = None
   \<and> length (admitted_in_window 10 ''constructor''
        (fst (serve [(0, ''constructor''), (1, ''constructor''), (2, ''constructor''),
          (3, ''constructor''), (4, ''constructor''), (5, ''constructor''),
          (6, ''constructor''), (7, ''constructor''), (8, ''constructor''),
          (9, ''constructor'')]))) = 10
   \<and> \<not> fst (isRateLimited 10 ''constructor''
        (snd (serve [(0, ''constructor''), (1, ''constructor''), (2, ''constructor''),
          (3, ''constructor''), (4, ''constructor''), (5, ''constructor''),
          (6, ''constructor''), (7, ''constructor''), (8, ''constructor''),
          (9, ''constructor'')])))
   \<and> map_of RATE_LIMITS ''process-pdf'' = Some 5
   \<and> length (admitted_in_window 5 ''process-pdf''
        (fst (serve [(0, ''process-pdf''), (1, ''process-pdf''), (2, ''process-pdf''),
          (3, ''process-pdf''), (4, ''process-pdf''), (100000, ''process-pdf'')]))) = 6
   \<and> \<not> fst (isRateLimited 5 ''process-pdf''
        (snd (serve [(0, ''process-pdf''), (1, ''process-pdf''), (2, ''process-pdf''),
          (3, ''process-pdf''), (4, ''process-pdf''), (100000, ''process-pdf'')])))"
proof -
  let ?ctor = "[(0, ''constructor''), (1, ''constructor''), (2, ''constructor''),
          (3, ''constructor''), (4, ''constructor''), (5, ''constructor''),
          (6, ''constructor''), (7, ''constructor''), (8, ''constructor''),
          (9, ''constructor'')] :: (int \<times> string) list"
  let ?pdf = "[(0, ''process-pdf''), (1, ''process-pdf''), (2, ''process-pdf''),
          (3, ''process-pdf''), (4, ''process-pdf''), (100000, ''process-pdf'')]
          :: (int \<times> string) list"
  have nan: "channel_limit ''constructor'' = NotANumber"
    by (simp add: channel_limit_def RATE_LIMITS_def object_prototype_properties_def)
  have five: "channel_limit ''process-pdf'' = Quota 5"
    by (simp add: channel_limit_def RATE_LIMITS_def)
  have log1: "fst (serve ?ctor) = ?ctor"
    by (simp add: serve_def serve_step_def isRateLimited_def Let_def stored_def nan)
  have a1: "length (admitted_in_window 10 ''constructor'' (fst (serve ?ctor))) = 10"
    unfolding log1 by (simp add: admitted_in_window_def in_window_def RATE_LIMIT_WINDOW_def)
  have a2: "\<not> fst (isRateLimited 10 ''constructor'' (snd (serve ?ctor)))"
    by (simp add: isRateLimited_verdict nan)
  have log2: "fst (serve ?pdf) = ?pdf"
    by (simp add: serve_def serve_step_def isRateLimited_def Let_def stored_def five
        in_window_def RATE_LIMIT_WINDOW_def)
  have st2: "stored (snd (serve ?pdf)) ''process-pdf'' = [100000]"
    by (simp add: serve_def serve_step_def isRateLimited_def Let_def stored_def five
        in_window_def RATE_LIMIT_WINDOW_def)
  have a3: "length (admitted_in_window 5 ''process-pdf'' (fst (serve ?pdf))) = 6"
    unfolding log2 by (simp add: admitted_in_window_def in_window_def RATE_LIMIT_WINDOW_def)
  have a4: "\<not> fst (isRateLimited 5 ''process-pdf'' (snd (serve ?pdf)))"
    by (simp add: isRateLimited_verdict st2 five in_window_def RATE_LIMIT_WINDOW_def)
  have "map_of RATE_LIMITS ''constructor'' = None" "map_of RATE_LIMITS ''process-pdf'' = Some 5"
    by (simp_all add: RATE_LIMITS_def)
  with a1 a2 a3 a4 show ?thesis by simp
qed

text \<open>
  C9 (as amended). After every call of \<^verbatim>\<open>isRateLimited(channel)\<close>, in any history of
  calls, the list stored for the channel holds only timestamps less than 60000 ms before
  the call (and, when the clock does not run backwards, none after it), and for a channel
  whose quota is a number it is no longer than the quota. A rejected call stores the old
  list filtered to the window and adds no timestamp, so a later call on the channel gets
  the verdict it would have got had the rejected call never been made.
\<close>

theorem isRateLimited_window_bounded:
  assumes "r = isRateLimited now channel (snd (serve calls))"
  shows "(\<forall>t \<in> set (stored (snd r) channel). now - t < 60000)
       \<and> (sorted (map fst (calls @ [(now, channel)])) \<longrightarrow>
            (\<forall>t \<in> set (stored (snd r) channel). t \<le> now))
       \<and> (\<forall>n. channel_limit channel = Quota n \<longrightarrow> length (stored (snd r) channel) \<le> n)
       \<and> channel_limit channel
            = (case map_of RATE_LIMITS channel of
                 Some n \<Rightarrow> Quota n
               | None \<Rightarrow>
                   if channel \<in> set object_prototype_properties then NotANumber else Quota 10)
       \<and> snd r = snd (serve (calls @ [(now, channel)]))
       \<and> (fst r \<longrightarrow>
            stored (snd r) channel = filter (in_window now) (stored (snd (serve calls)) channel)
          \<and> now \<notin> set (stored (snd r) channel) - set (stored (snd (serve calls)) channel)
          \<and> fst (serve (calls @ [(now, channel)])) = fst (serve calls)
          \<and> (\<forall>later. now \<le> later \<longrightarrow>
                fst (isRateLimited later channel (snd r))
                  = fst (isRateLimited later channel (snd (serve calls)))))"
proof -
  have r: "snd r = snd (serve (calls @ [(now, channel)]))"
    by (simp add: assms serve_snoc serve_step_def Let_def)
  have window: "\<forall>t \<in> set (stored (snd r) channel). now - t < 60000"
    by (auto simp: assms isRateLimited_stored_same in_window_def RATE_LIMIT_WINDOW_def)
  have bound: "\<forall>n. channel_limit channel = Quota n \<longrightarrow> length (stored (snd r) channel) \<le> n"
    unfolding r using serve_stored_length by blast
  have past: "\<forall>t \<in> set (stored (snd r) channel). t \<le> now"
    if "sorted (map fst (calls @ [(now, channel)]))"
  proof
    fix t assume "t \<in> set (stored (snd r) channel)"
    then have "t \<in> fst ` set (calls @ [(now, channel)])"
      using serve_stored_times [of "calls @ [(now, channel)]" channel] r by auto
    then show "t \<le> now"
      using that by (auto simp: sorted_append)
  qed
  have rejected: "stored (snd r) channel
      = filter (in_window now) (stored (snd (serve calls)) channel)" if "fst r"
    using that by (simp add: assms isRateLimited_stored_same)
  have log: "fst (serve (calls @ [(now, channel)])) = fst (serve calls)" if "fst r"
    using that by (simp add: assms serve_snoc serve_step_def Let_def)
  have later: "fst (isRateLimited later channel (snd r))
      = fst (isRateLimited later channel (snd (serve calls)))" if "fst r" "now \<le> later" for later
    using that rejected
    by (simp add: isRateLimited_verdict filter_window_twice del: filter_filter)
  show ?thesis
    using r window bound past rejected log later channel_limit_table [of channel] by auto
qed

theorem isRateLimited_window_bounded_witness:
  "stored (snd (isRateLimited 60 ''process-pdf''
        (snd (serve [(0, ''process-pdf''), (10, ''process-pdf''), (20, ''process-pdf''),
          (30, ''process-pdf''), (40, ''process-pdf'')])))) ''process-pdf''
     = [0, 10, 20, 30, 40]
   \<and> fst (isRateLimited 60 ''process-pdf''
        (snd (serve [(0, ''process-pdf''), (10, ''process-pdf''), (20, ''process-pdf''),
          (30, ''process-pdf''), (40, ''process-pdf'')])))
   \<and> channel_limit ''process-pdf'' = Quota 5
   \<and> length (stored (snd (isRateLimited 60 ''process-pdf''
        (snd (serve [(0, ''process-pdf''), (10, ''process-pdf''), (20, ''process-pdf''),
          (30, ''process-pdf''), (40, ''process-pdf'')])))) ''process-pdf'') \<le> 5"
proof -
  let ?calls = "[(0, ''process-pdf''), (10, ''process-pdf''), (20, ''process-pdf''),
        (30, ''process-pdf''), (40, ''process-pdf'')] :: (int \<times> string) list"
  let ?r = "isRateLimited 60 ''process-pdf'' (snd (serve ?calls))"
  have five: "channel_limit ''process-pdf'' = Quota 5"
    by (simp add: channel_limit_def RATE_LIMITS_def)
  have st: "stored (snd (serve ?calls)) ''process-pdf'' = [0, 10, 20, 30, 40]"
    by (simp add: serve_def serve_step_def isRateLimited_def Let_def stored_def five
        in_window_def RATE_LIMIT_WINDOW_def)
  have verdict: "fst ?r"
    by (simp add: isRateLimited_verdict st five in_window_def RATE_LIMIT_WINDOW_def)
  from isRateLimited_window_bounded [OF refl, of 60 "''process-pdf''" ?calls] verdict five
  have "stored (snd ?r) ''process-pdf''
        = filter (in_window 60) (stored (snd (serve ?calls)) ''process-pdf'')"
    and "length (stored (snd ?r) ''process-pdf'') \<le> 5"
    by blast+
  then show ?thesis
    using verdict five by (simp add: st in_window_def RATE_LIMIT_WINDOW_def)
qed

text \<open>
  C9 as the specification words it fails twice. For the name \<^verbatim>\<open>constructor\<close>, which the
  table does not list, eleven calls leave eleven timestamps in the stored list, more than
  the default quota 10. And when the clock runs backwards the stored list keeps a
  timestamp that is not from the 60000 ms before the call: after calls at 100000 and at 5
  on \<^verbatim>\<open>save-agent\<close> the list is 100000, 5.
\<close>

theorem isRateLimited_window_bounded_counterexample:
  "map_of RATE_LIMITS ''constructor'' = None
   \<and> length (stored (snd (serve [(0, ''constructor''), (1, ''constructor''),
        (2, ''constructor''), (3, ''constructor''), (4, ''constructor''), (5, ''constructor''),
        (6, ''constructor''), (7, ''constructor''), (8, ''constructor''), (9, ''constructor''),
        (10, ''constructor'')])) ''constructor'') = 11
   \<and> stored (snd (isRateLimited 5 ''save-agent'' (snd (serve [(100000, ''save-agent'')]))))
        ''save-agent'' = [100000, 5]
   \<and> \<not> (100000::int) \<le> 5"
proof -
  have nan: "channel_limit ''constructor'' = NotANumber"
    by (simp add: channel_limit_def RATE_LIMITS_def object_prototype_properties_def)
  have ten: "channel_limit ''save-agent'' = Quota 10"
    by (simp add: channel_limit_def RATE_LIMITS_def)
  have a1: "length (stored (snd (serve [(0, ''constructor''), (1, ''constructor''),
        (2, ''constructor''), (3, ''constructor''), (4, ''constructor''), (5, ''constructor''),
        (6, ''constructor''), (7, ''constructor''), (8, ''constructor''), (9, ''constructor''),
        (10, ''constructor'')])) ''constructor'') = 11"
    by (simp add: serve_def serve_step_def isRateLimited_def Let_def stored_def nan
        in_window_def RATE_LIMIT_WINDOW_def)
  have a2: "stored (snd (isRateLimited 5 ''save-agent'' (snd (serve [(100000, ''save-agent'')]))))
        ''save-agent'' = [100000, 5]"
    by (simp add: serve_def serve_step_def isRateLimited_def Let_def stored_def ten
        in_window_def RATE_LIMIT_WINDOW_def)
  have "map_of RATE_LIMITS ''constructor'' = None" by (simp add: RATE_LIMITS_def)
  with a1 a2 show ?thesis by simp
qed
section \<open>Properties of the IPC handlers\<close>

lemma error_like_Error: "error_like (Error msg)"
  by (simp add: error_like_def Error_def)

lemma error_like_TypeError: "error_like (TypeError msg)"
  by (simp add: error_like_def TypeError_def)

lemma sanitizeErrorMessage_returns: "(\<exists>s. sanitizeErrorMessage e = Inr s) \<longleftrightarrow> error_like e"
proof (cases e)
  case (JObject ps)
  then show ?thesis
    by (cases "get_prop e ''message''")
       (auto simp: sanitizeErrorMessage_def error_like_def Let_def)
qed (simp_all add: sanitizeErrorMessage_def error_like_def Let_def)

lemma check_flags_error_like: "check_flags settings keys = Inl e \<Longrightarrow> error_like e"
  by (induction keys) (auto simp: error_like_Error split: if_splits)

lemma validateAgentData_error_like: "validateAgentData agentData = Inl e \<Longrightarrow> error_like e"
  by (auto simp: validateAgentData_def error_like_Error split: if_splits)

lemma validateSettings_error_like: "validateSettings settings = Inl e \<Longrightarrow> error_like e"
  by (auto simp: validateSettings_def error_like_Error check_flags_error_like split: if_splits)

lemma validateAgentType_error_like: "validateAgentType agentType = Inl e \<Longrightarrow> error_like e"
  by (auto simp: validateAgentType_def error_like_Error split: if_splits)

lemma check_query_error_like: "check_query query = Inl e \<Longrightarrow> error_like e"
  by (auto simp: check_query_def error_like_Error split: if_splits)

lemma read_member_error_like: "read_member v k = Inl e \<Longrightarrow> error_like e"
  by (cases v) (auto simp: error_like_TypeError)

lemma read_member_Error_code: "read_member (Error msg) ''code'' = Inr JUndefined"
  by (simp add: Error_def)

lemma validatePdfPath_error_like:
  assumes "validatePdfPath filePath isAbsolute stat_result = Inl e"
    and "\<And>x. stat_result = Inl x \<Longrightarrow> error_like x"
  shows "error_like e"
proof (cases "\<not> truthy filePath \<or> typeof filePath \<noteq> ''string''")
  case True
  with assms(1) have "e = Error ''Invalid file path: must be a string''"
    by (simp add: validatePdfPath_def del: show_nat.simps)
  then show ?thesis by (simp only: error_like_Error)
next
  case valid: False
  show ?thesis
  proof (cases isAbsolute)
    case False
    with assms(1) valid have "e = Error ''Invalid file path: must be absolute''"
      by (simp add: validatePdfPath_def del: show_nat.simps)
    then show ?thesis by (simp only: error_like_Error)
  next
    case absolute: True
    show ?thesis
    proof (cases stat_result)
      case (Inl x)
      then have x: "error_like x" by (rule assms(2))
      show ?thesis
      proof (cases "read_member x ''code''")
        case thrown_error: (Inl t)
        with assms(1) valid absolute Inl have "e = t"
          by (simp add: validatePdfPath_def del: show_nat.simps)
        with thrown_error show ?thesis by (simp only: read_member_error_like)
      next
        case (Inr c)
        with assms(1) valid absolute Inl
        have "e = Error ''File not found'' \<or> e = x"
          by (simp add: validatePdfPath_def del: show_nat.simps split: if_splits)
        with x show ?thesis by (auto simp only: error_like_Error)
      qed
    next
      case (Inr stats)
      with assms(1) valid absolute
      have "\<exists>msg. e = Error msg"
        by (auto simp add: validatePdfPath_def read_member_Error_code simp del: show_nat.simps
                 split: if_splits)
      then show ?thesis by (auto simp only: error_like_Error)
    qed
  qed
qed

lemma request_error_like:
  assumes "request_error req = Some e" and "\<forall>x\<in>set (environment_thrown req). error_like x"
  shows "error_like e"
proof (cases req)
  case (Process_pdf filePath isAbsolute stat_result parsed)
  with assms show ?thesis
    by (cases "validatePdfPath filePath isAbsolute stat_result")
       (auto simp: request_error_def thrown_def dest: validatePdfPath_error_like
             split: sum.splits)
next
  case (Consult_agent agentType query consulted)
  with assms show ?thesis
    by (auto simp: request_error_def thrown_def
             dest: validateAgentType_error_like check_query_error_like
             split: sum.splits)
qed (use assms in \<open>auto simp: request_error_def thrown_def
       dest: validateAgentData_error_like validateSettings_error_like
       split: sum.splits\<close>)

lemma guarded_body_throws: "thrown (guarded_body req) = request_error req"
  by (cases req)
     (auto simp: request_error_def thrown_def check_query_def
           split: sum.splits if_splits)

lemma handle_limited:
  "fst (isRateLimited now (channel_of req) m) \<Longrightarrow>
     fst (handle now req m) = Inr (limited_response req)"
  by (simp add: handle_def Let_def try_catch_def)

lemma handle_caught:
  assumes "\<not> fst (isRateLimited now (channel_of req) m)" and "request_error req = Some e"
  shows "fst (handle now req m) = catch_block req e"
proof -
  from assms(2) have "guarded_body req = Inl e"
    using guarded_body_throws [of req] by (cases "guarded_body req") (auto simp: thrown_def)
  with assms(1) show ?thesis by (simp add: handle_def Let_def try_catch_def)
qed

lemma handle_passed:
  assumes "\<not> fst (isRateLimited now (channel_of req) m)" and "request_error req = None"
  shows "\<exists>v. fst (handle now req m) = Inr v"
proof -
  from assms(2) have "\<exists>v. guarded_body req = Inr v"
    using guarded_body_throws [of req] by (cases "guarded_body req") (auto simp: thrown_def)
  with assms(1) show ?thesis by (auto simp: handle_def Let_def try_catch_def)
qed

lemma limited_response_failure:
  "is_failure (limited_response req)
   \<and> failure_message (limited_response req)
        = Some ''Rate limit exceeded. Please try again later.''"
  by (cases req) (simp_all add: is_failure_def failure_message_def rate_limit_response_def)

lemma catch_block_failure:
  "channel_of req \<noteq> ''get-app-version'' \<Longrightarrow> sanitizeErrorMessage e = Inr s \<Longrightarrow>
     \<exists>v. catch_block req e = Inr v \<and> is_failure v \<and> failure_message v = Some s"
  by (cases req) (simp_all add: is_failure_def failure_message_def error_response_def)

lemma catch_block_throws:
  "channel_of req \<noteq> ''get-app-version'' \<Longrightarrow> sanitizeErrorMessage e = Inl t \<Longrightarrow>
     catch_block req e = Inl t"
  by (cases req) (simp_all add: error_response_def)

lemma catch_block_version:
  "channel_of req = ''get-app-version'' \<Longrightarrow> catch_block req e = Inr (JString ''1.0.0'')"
  by (cases req) simp_all

lemma handle_returns:
  assumes "\<forall>x\<in>set (environment_thrown req). error_like x"
  shows "\<exists>v. fst (handle now req m) = Inr v"
proof (cases "fst (isRateLimited now (channel_of req) m)")
  case True
  then show ?thesis by (simp add: handle_limited)
next
  case False
  show ?thesis
  proof (cases "request_error req")
    case None
    with False show ?thesis by (rule handle_passed)
  next
    case (Some e)
    then have "error_like e" using assms by (rule request_error_like)
    then obtain s where s: "sanitizeErrorMessage e = Inr s"
      using sanitizeErrorMessage_returns [of e] by blast
    show ?thesis
    proof (cases "channel_of req = ''get-app-version''")
      case True
      then show ?thesis using handle_caught [OF False Some] catch_block_version [of req e] by simp
    next
      case ne: False
      then show ?thesis
        using handle_caught [OF False Some] catch_block_failure [OF ne s] by auto
    qed
  qed
qed

text \<open>
  C4 (as amended). A handler does nothing to the state but the one rate limit check of
  its channel. When the rate limit is exceeded the answer is an object with
  \<^verbatim>\<open>success: false\<close> and the rate limit message as its error string. When the request
  is admitted and its input validation or a call to the environment throws a value
  \<open>e\<close>, the handler of \<^verbatim>\<open>get-app-version\<close> answers the string \<^verbatim>\<open>1.0.0\<close>; every other
  handler answers an object with \<^verbatim>\<open>success: false\<close> and the sanitized message of \<open>e\<close>
  as its error string when the sanitizer returns one, and throws to its caller what the
  sanitizer throws otherwise. The sanitizer returns exactly for the values that are
  neither \<^verbatim>\<open>null\<close> nor \<^verbatim>\<open>undefined\<close> and whose message is absent, falsy or a string;
  when everything that the environment throws is such a value, no handler throws to its
  caller.
\<close>

theorem handlers_reject_with_error_string:
  "((\<forall>x\<in>set (environment_thrown req). error_like x) \<longrightarrow>
      (\<exists>v. fst (handle now req m) = Inr v))
   \<and> snd (handle now req m) = snd (isRateLimited now (channel_of req) m)
   \<and> (fst (isRateLimited now (channel_of req) m) \<longrightarrow>
        (\<exists>v. fst (handle now req m) = Inr v \<and> is_failure v
           \<and> failure_message v = Some ''Rate limit exceeded. Please try again later.''))
   \<and> (\<not> fst (isRateLimited now (channel_of req) m) \<longrightarrow>
        (\<forall>e. request_error req = Some e \<longrightarrow>
           (if channel_of req = ''get-app-version''
            then fst (handle now req m) = Inr (JString ''1.0.0'')
            else (case sanitizeErrorMessage e of
                    Inr s \<Rightarrow>
                      (\<exists>v. fst (handle now req m) = Inr v \<and> is_failure v
                         \<and> failure_message v = Some s)
                  | Inl t \<Rightarrow> fst (handle now req m) = Inl t))))
   \<and> (\<forall>e. (\<exists>s. sanitizeErrorMessage e = Inr s) \<longleftrightarrow>
          e \<noteq> JUndefined \<and> e \<noteq> JNull
          \<and> (\<not> truthy (get_prop e ''message'')
               \<or> typeof (get_prop e ''message'') = ''string''))"
proof -
  have returns: "\<exists>v. fst (handle now req m) = Inr v"
    if "\<forall>x\<in>set (environment_thrown req). error_like x"
    using that by (rule handle_returns)
  have state: "snd (handle now req m) = snd (isRateLimited now (channel_of req) m)"
    by (simp add: handle_def Let_def)
  have limited: "\<exists>v. fst (handle now req m) = Inr v \<and> is_failure v
      \<and> failure_message v = Some ''Rate limit exceeded. Please try again later.''"
    if "fst (isRateLimited now (channel_of req) m)"
    using handle_limited [OF that] limited_response_failure [of req] by simp
  have caught: "if channel_of req = ''get-app-version''
      then fst (handle now req m) = Inr (JString ''1.0.0'')
      else (case sanitizeErrorMessage e of
              Inr s \<Rightarrow>
                (\<exists>v. fst (handle now req m) = Inr v \<and> is_failure v
                   \<and> failure_message v = Some s)
            | Inl t \<Rightarrow> fst (handle now req m) = Inl t)"
    if "\<not> fst (isRateLimited now (channel_of req) m)" and "request_error req = Some e" for e
    using handle_caught [OF that] catch_block_failure [of req e] catch_block_throws [of req e]
      catch_block_version [of req e]
    by (cases "sanitizeErrorMessage e") simp_all
  have sanitizer: "(\<exists>s. sanitizeErrorMessage e = Inr s) \<longleftrightarrow>
      e \<noteq> JUndefined \<and> e \<noteq> JNull
      \<and> (\<not> truthy (get_prop e ''message'') \<or> typeof (get_prop e ''message'') = ''string'')"
    for e
    using sanitizeErrorMessage_returns [of e] by (simp add: error_like_def)
  show ?thesis
    using returns state limited caught sanitizer by (intro conjI impI allI) blast+
qed

theorem handlers_reject_with_error_string_witness:
  "fst (handle 0 (Save_settings (JObject [(''theme'', JString ''blue'')]) (Inr ())) Map.empty)
     = Inr (JObject [(''success'', JBool False),
                     (''error'', JString ''Invalid settings: theme must be \"light\" or \"dark\"'')])
   \<and> fst (handle 0 (Get_app_version (Inl JNull)) Map.empty) = Inr (JString ''1.0.0'')
   \<and> (\<exists>v. fst (handle 0 (Load_agents (Inl (Error ''disk full''))) Map.empty) = Inr v)
   \<and> (\<exists>v. fst (handle 10 (Load_template (Inr (JString ''template'')))
         (snd (serve [(0, ''load-template''), (1, ''load-template''), (2, ''load-template''),
            (3, ''load-template''), (4, ''load-template''), (5, ''load-template''),
            (6, ''load-template''), (7, ''load-template''), (8, ''load-template''),
            (9, ''load-template'')]))) = Inr v
        \<and> is_failure v
        \<and> failure_message v = Some ''Rate limit exceeded. Please try again later.'')"
proof -
  let ?req1 = "Save_settings (JObject [(''theme'', JString ''blue'')]) (Inr ())"
  let ?e1 = "Error ''Invalid settings: theme must be \"light\" or \"dark\"''"
  let ?req2 = "Get_app_version (Inl JNull)"
  let ?req3 = "Load_template (Inr (JString ''template''))"
  let ?req4 = "Load_agents (Inl (Error ''disk full''))"
  let ?m3 = "snd (serve [(0, ''load-template''), (1, ''load-template''), (2, ''load-template''),
            (3, ''load-template''), (4, ''load-template''), (5, ''load-template''),
            (6, ''load-template''), (7, ''load-template''), (8, ''load-template''),
            (9, ''load-template'')])"
  note inst1 = handlers_reject_with_error_string [where now = 0 and req = ?req1 and m = Map.empty]
  note inst2 = handlers_reject_with_error_string [where now = 0 and req = ?req2 and m = Map.empty]
  note inst3 = handlers_reject_with_error_string [where now = 10 and req = ?req3 and m = ?m3]
  note inst4 = handlers_reject_with_error_string [where now = 0 and req = ?req4 and m = Map.empty]
  have free: "\<not> fst (isRateLimited 0 c Map.empty)" for c
    by (rule isRateLimited_fresh)
  have err1: "request_error ?req1 = Some ?e1"
    by (simp add: request_error_def validateSettings_def)
  have san1: "sanitizeErrorMessage ?e1
      = Inr ''Invalid settings: theme must be \"light\" or \"dark\"''"
    by code_simp
  from inst1 free [of "channel_of ?req1"] err1
  have "case sanitizeErrorMessage ?e1 of
          Inr s \<Rightarrow> (\<exists>v. fst (handle 0 ?req1 Map.empty) = Inr v \<and> is_failure v
                     \<and> failure_message v = Some s)
        | Inl t \<Rightarrow> fst (handle 0 ?req1 Map.empty) = Inl t"
    by simp
  then obtain v where v: "fst (handle 0 ?req1 Map.empty) = Inr v"
    by (auto simp: san1)
  moreover have "fst (handle 0 ?req1 Map.empty) = catch_block ?req1 ?e1"
    by (rule handle_caught [OF free err1])
  ultimately have a1: "fst (handle 0 ?req1 Map.empty)
      = Inr (JObject [(''success'', JBool False),
                      (''error'', JString ''Invalid settings: theme must be \"light\" or \"dark\"'')])"
    by (simp add: error_response_def san1)
  have err2: "request_error ?req2 = Some JNull"
    by (simp add: request_error_def thrown_def)
  from inst2 free [of "channel_of ?req2"] err2
  have a2: "fst (handle 0 ?req2 Map.empty) = Inr (JString ''1.0.0'')"
    by simp
  have "\<forall>x\<in>set (environment_thrown ?req4). error_like x"
    by (simp add: error_like_def Error_def)
  with inst4 have a4: "\<exists>v. fst (handle 0 ?req4 Map.empty) = Inr v"
    by blast
  have st: "stored ?m3 ''load-template'' = [0, 1, 2, 3, 4, 5, 6, 7, 8, 9]"
    by (simp add: serve_def serve_step_def isRateLimited_def Let_def stored_def
        channel_limit_def RATE_LIMITS_def in_window_def RATE_LIMIT_WINDOW_def)
  have "fst (isRateLimited 10 (channel_of ?req3) ?m3)"
    by (simp add: isRateLimited_verdict st channel_limit_def RATE_LIMITS_def in_window_def
        RATE_LIMIT_WINDOW_def)
  with inst3
  have a3: "\<exists>v. fst (handle 10 ?req3 ?m3) = Inr v \<and> is_failure v
      \<and> failure_message v = Some ''Rate limit exceeded. Please try again later.''"
    by blast
  from a1 a2 a4 a3 show ?thesis by (intro conjI)
qed

text \<open>
  C4 as first stated (no handler ever throws to its caller) fails. When
  \<^verbatim>\<open>fileManager.loadAgents()\<close> throws \<^verbatim>\<open>null\<close>, the \<^verbatim>\<open>catch\<close> block of \<^verbatim>\<open>load-agents\<close>
  calls \<^verbatim>\<open>sanitizeErrorMessage(null)\<close>, which reads \<^verbatim>\<open>null.message\<close>: the handler throws
  a \<^verbatim>\<open>TypeError\<close>. When the consultation throws an object whose message is the number
  42, \<^verbatim>\<open>message.replace\<close> is not a function and the handler of \<^verbatim>\<open>consult-agent\<close> throws.
\<close>

theorem handlers_reject_with_error_string_counterexample:
  "fst (handle 0 (Load_agents (Inl JNull)) Map.empty)
     = Inl (TypeError (''Cannot read properties of null (reading '' @ [CHR 0x27]
              @ ''message'' @ [CHR 0x27] @ '')''))
   \<and> fst (handle 0
        (Consult_agent (JString ''code-reviewer'') (JString ''How?'')
           (Inl (JObject [(''message'', JNumber 42)]))) Map.empty)
     = Inl (TypeError ''message.replace is not a function'')"
proof -
  have free: "\<not> fst (isRateLimited 0 c Map.empty)" for c
    by (rule isRateLimited_fresh)
  have "fst (handle 0 (Load_agents (Inl JNull)) Map.empty)
      = catch_block (Load_agents (Inl JNull)) JNull"
    by (rule handle_caught [OF free]) (simp add: request_error_def thrown_def)
  then have first: "fst (handle 0 (Load_agents (Inl JNull)) Map.empty)
      = Inl (TypeError (''Cannot read properties of null (reading '' @ [CHR 0x27]
               @ ''message'' @ [CHR 0x27] @ '')''))"
    by (simp add: error_response_def sanitizeErrorMessage_def)
  let ?req = "Consult_agent (JString ''code-reviewer'') (JString ''How?'')
      (Inl (JObject [(''message'', JNumber 42)]))"
  have "validateAgentType (JString ''code-reviewer'') = Inr True"
    by (simp add: validateAgentType_def safe_char_def is_lower_def is_upper_def is_digit_def)
  then have "request_error ?req = Some (JObject [(''message'', JNumber 42)])"
    by (simp add: request_error_def thrown_def check_query_def)
  with free have "fst (handle 0 ?req Map.empty) = catch_block ?req (JObject [(''message'', JNumber 42)])"
    by (rule handle_caught)
  then have second: "fst (handle 0 ?req Map.empty)
      = Inl (TypeError ''message.replace is not a function'')"
    by (simp add: error_response_def sanitizeErrorMessage_def)
  from first second show ?thesis ..
qed

text \<open>
  C3. The sanitizer leaves parts of filesystem paths in the string that the renderer
  receives. \<^verbatim>\<open>/[A-Z]:\\[^\s]+/g\<close> and \<^verbatim>\<open>/\/[^\s]+/g\<close> stop at the first white space, so of
  a path with a space in a directory name only the part before the space is replaced:
  for the error of a failed \<^verbatim>\<open>open\<close> on Windows the handler of \<^verbatim>\<open>load-settings\<close> answers
  with the rest of the path in its error string, and a Unix path with a space keeps the
  directory name between two \<^verbatim>\<open>[path]\<close>.
\<close>

theorem sanitizeErrorMessage_leaks_path:
  "fst (handle 0
      (Load_settings (Inl (Error (''ENOENT: no such file or directory, open '' @ [CHR 0x27]
         @ ''C:'' @ [CHR 0x5C] @ ''Program Files'' @ [CHR 0x5C] @ ''Agent Generator''
         @ [CHR 0x5C] @ ''settings.json'' @ [CHR 0x27])))) Map.empty)
     = Inr (JObject [(''success'', JBool False),
          (''error'', JString (''ENOENT: no such file or directory, open '' @ [CHR 0x27]
             @ ''[path] Files'' @ [CHR 0x5C] @ ''Agent Generator'' @ [CHR 0x5C]
             @ ''settings.json'' @ [CHR 0x27])),
          (''settings'', JObject [])])
   \<and> sanitizeErrorMessage (Error ''cannot read /home/bob/my notes/todo.txt'')
     = Inr ''cannot read [path] notes[path]''"
proof -
  let ?e = "Error (''ENOENT: no such file or directory, open '' @ [CHR 0x27]
         @ ''C:'' @ [CHR 0x5C] @ ''Program Files'' @ [CHR 0x5C] @ ''Agent Generator''
         @ [CHR 0x5C] @ ''settings.json'' @ [CHR 0x27])"
  have free: "\<not> fst (isRateLimited 0 c Map.empty)" for c
    by (rule isRateLimited_fresh)
  have san: "sanitizeErrorMessage ?e
      = Inr (''ENOENT: no such file or directory, open '' @ [CHR 0x27]
             @ ''[path] Files'' @ [CHR 0x5C] @ ''Agent Generator'' @ [CHR 0x5C]
             @ ''settings.json'' @ [CHR 0x27])"
    by code_simp
  have "fst (handle 0 (Load_settings (Inl ?e)) Map.empty) = catch_block (Load_settings (Inl ?e)) ?e"
    by (rule handle_caught [OF free]) (simp add: request_error_def thrown_def)
  also have "\<dots> = error_response ?e [(''settings'', JObject [])]"
    by (simp only: catch_block.simps)
  finally have first: "fst (handle 0 (Load_settings (Inl ?e)) Map.empty)
     = Inr (JObject [(''success'', JBool False),
          (''error'', JString (''ENOENT: no such file or directory, open '' @ [CHR 0x27]
             @ ''[path] Files'' @ [CHR 0x5C] @ ''Agent Generator'' @ [CHR 0x5C]
             @ ''settings.json'' @ [CHR 0x27])),
          (''settings'', JObject [])])"
    unfolding error_response_def san by simp
  have second: "sanitizeErrorMessage (Error ''cannot read /home/bob/my notes/todo.txt'')
     = Inr ''cannot read [path] notes[path]''"
    by code_simp
  from first second show ?thesis ..
qed

lemma handle_failure:
  assumes "request_error req = Some e" and "channel_of req \<noteq> ''get-app-version''"
    and "error_like e"
  shows "\<exists>v. fst (handle now req m) = Inr v \<and> is_failure v"
proof (cases "fst (isRateLimited now (channel_of req) m)")
  case True
  then show ?thesis
    using handle_limited [OF True] limited_response_failure [of req] by simp
next
  case False
  then show ?thesis
    using handle_caught [OF False assms(1)] catch_block_failure [OF assms(2), of e]
      sanitizeErrorMessage_returns [of e] assms(3) by auto
qed

lemma validateAgentData_name_too_long:
  "get_prop agentData ''name'' = JString name \<Longrightarrow> 200 < length name \<Longrightarrow>
     \<exists>e. validateAgentData agentData = Inl e"
  by (simp add: validateAgentData_def)

lemma validateAgentData_content_too_long:
  "get_prop agentData ''content'' = JString content \<Longrightarrow> 1000000 < length content \<Longrightarrow>
     \<exists>e. validateAgentData agentData = Inl e"
  by (simp add: validateAgentData_def)

lemma validateAgentType_rejects:
  "100 < length agentType \<or> \<not> list_all safe_char agentType \<Longrightarrow>
     \<exists>e. validateAgentType (JString agentType) = Inl e"
  by (auto simp: validateAgentType_def)

lemma validateAgentType_accepts:
  "agentType \<noteq> [] \<Longrightarrow> length agentType \<le> 100 \<Longrightarrow> list_all safe_char agentType \<Longrightarrow>
     validateAgentType (JString agentType) = Inr True"
  by (simp add: validateAgentType_def)

lemma validateAgentData_accepts:
  assumes "typeof agentData = ''object''" and "truthy agentData"
    and "get_prop agentData ''name'' = JString name" and "name \<noteq> []" and "length name \<le> 200"
    and "get_prop agentData ''content'' = JString content" and "content \<noteq> []"
    and "length content \<le> 1000000"
    and "\<not> truthy (get_prop agentData ''metadata'')
         \<or> typeof (get_prop agentData ''metadata'') = ''object''"
  shows "validateAgentData agentData = Inr True"
  using assms by (auto simp: validateAgentData_def)

text \<open>
  C7. \<^verbatim>\<open>save-agent\<close> answers \<^verbatim>\<open>success: false\<close> whenever the name is a string of more
  than 200 characters or the content a string of more than 1,000,000 characters;
  \<^verbatim>\<open>consult-agent\<close> answers \<^verbatim>\<open>success: false\<close> whenever the agent type is a string of
  more than 100 characters or with a character that is not a letter, a digit, a hyphen or
  an underscore, or the query is a string of more than 10,000 characters. Non-empty
  strings within these bounds pass the validators, and an admitted request with them
  reaches the call to the file manager.
\<close>

theorem input_length_checks:
  "(get_prop agentData ''name'' = JString name \<and> 200 < length name \<longrightarrow>
      (\<exists>v. fst (handle now (Save_agent agentData saved) m) = Inr v \<and> is_failure v))
   \<and> (get_prop agentData ''content'' = JString content \<and> 1000000 < length content \<longrightarrow>
      (\<exists>v. fst (handle now (Save_agent agentData saved) m) = Inr v \<and> is_failure v))
   \<and> (100 < length agentType \<or> \<not> list_all safe_char agentType \<longrightarrow>
      (\<exists>v. fst (handle now (Consult_agent (JString agentType) query consulted) m) = Inr v
         \<and> is_failure v))
   \<and> (10000 < length q \<longrightarrow>
      (\<exists>v. fst (handle now (Consult_agent anyType (JString q) consulted) m) = Inr v
         \<and> is_failure v))
   \<and> (typeof agentData = ''object'' \<and> truthy agentData
       \<and> get_prop agentData ''name'' = JString name \<and> name \<noteq> [] \<and> length name \<le> 200
       \<and> get_prop agentData ''content'' = JString content \<and> content \<noteq> []
       \<and> length content \<le> 1000000
       \<and> (\<not> truthy (get_prop agentData ''metadata'')
            \<or> typeof (get_prop agentData ''metadata'') = ''object'') \<longrightarrow>
        validateAgentData agentData = Inr True
        \<and> (\<not> fst (isRateLimited now ''save-agent'' m) \<longrightarrow>
             (\<forall>result. fst (handle now (Save_agent agentData (Inr result)) m)
                = Inr (spread [(''success'', JBool True)] result))))
   \<and> (agentType \<noteq> [] \<and> length agentType \<le> 100 \<and> list_all safe_char agentType
       \<and> q \<noteq> [] \<and> length q \<le> 10000 \<longrightarrow>
        validation (Consult_agent (JString agentType) (JString q) consulted) = Inr True
        \<and> (\<not> fst (isRateLimited now ''consult-agent'' m) \<longrightarrow>
             (\<forall>response. fst (handle now
                  (Consult_agent (JString agentType) (JString q) (Inr response)) m)
                = Inr (JObject [(''success'', JBool True), (''response'', response)]))))"
proof -
  have name: "\<exists>v. fst (handle now (Save_agent agentData saved) m) = Inr v \<and> is_failure v"
    if "get_prop agentData ''name'' = JString name" "200 < length name"
  proof -
    from validateAgentData_name_too_long [OF that]
    obtain e where e: "validateAgentData agentData = Inl e" ..
    then have "request_error (Save_agent agentData saved) = Some e"
      by (simp add: request_error_def)
    then show ?thesis
      by (rule handle_failure) (simp_all add: validateAgentData_error_like [OF e])
  qed
  have content: "\<exists>v. fst (handle now (Save_agent agentData saved) m) = Inr v \<and> is_failure v"
    if "get_prop agentData ''content'' = JString content" "1000000 < length content"
  proof -
    from validateAgentData_content_too_long [OF that]
    obtain e where e: "validateAgentData agentData = Inl e" ..
    then have "request_error (Save_agent agentData saved) = Some e"
      by (simp add: request_error_def)
    then show ?thesis
      by (rule handle_failure) (simp_all add: validateAgentData_error_like [OF e])
  qed
  have type: "\<exists>v. fst (handle now (Consult_agent (JString agentType) query consulted) m) = Inr v
      \<and> is_failure v"
    if "100 < length agentType \<or> \<not> list_all safe_char agentType"
  proof -
    from validateAgentType_rejects [OF that]
    obtain e where e: "validateAgentType (JString agentType) = Inl e" ..
    then have "request_error (Consult_agent (JString agentType) query consulted) = Some e"
      by (simp add: request_error_def)
    then show ?thesis
      by (rule handle_failure) (simp_all add: validateAgentType_error_like [OF e])
  qed
  have query: "\<exists>v. fst (handle now (Consult_agent anyType (JString q) consulted) m) = Inr v
      \<and> is_failure v"
    if "10000 < length q"
  proof -
    have "\<exists>e. validation (Consult_agent anyType (JString q) consulted) = Inl e \<and> error_like e"
      using that
      by (cases "validateAgentType anyType")
         (auto simp: check_query_def error_like_Error validateAgentType_error_like)
    then obtain e where e: "validation (Consult_agent anyType (JString q) consulted) = Inl e"
      and like: "error_like e" by blast
    from e have "request_error (Consult_agent anyType (JString q) consulted) = Some e"
      by (simp add: request_error_def)
    then show ?thesis
      by (rule handle_failure) (simp_all add: like)
  qed
  have save_ok: "validateAgentData agentData = Inr True
      \<and> (\<not> fst (isRateLimited now ''save-agent'' m) \<longrightarrow>
           (\<forall>result. fst (handle now (Save_agent agentData (Inr result)) m)
              = Inr (spread [(''success'', JBool True)] result)))"
    if "typeof agentData = ''object''" "truthy agentData"
      "get_prop agentData ''name'' = JString name" "name \<noteq> []" "length name \<le> 200"
      "get_prop agentData ''content'' = JString content" "content \<noteq> []"
      "length content \<le> 1000000"
      "\<not> truthy (get_prop agentData ''metadata'')
         \<or> typeof (get_prop agentData ''metadata'') = ''object''"
  proof -
    have "validateAgentData agentData = Inr True"
      by (rule validateAgentData_accepts [OF that])
    then show ?thesis by (simp add: handle_def Let_def try_catch_def)
  qed
  have consult_ok: "validation (Consult_agent (JString agentType) (JString q) consulted) = Inr True
      \<and> (\<not> fst (isRateLimited now ''consult-agent'' m) \<longrightarrow>
           (\<forall>response. fst (handle now
                (Consult_agent (JString agentType) (JString q) (Inr response)) m)
              = Inr (JObject [(''success'', JBool True), (''response'', response)])))"
    if "agentType \<noteq> []" "length agentType \<le> 100" "list_all safe_char agentType"
      "q \<noteq> []" "length q \<le> 10000"
    using validateAgentType_accepts [OF that(1-3)] that(4,5)
    by (simp add: check_query_def handle_def Let_def try_catch_def)
  show ?thesis
    using name content type query save_ok consult_ok by blast
qed

theorem input_length_checks_witness:
  "fst (handle 0
      (Save_agent (JObject [(''name'', JString (replicate 201 (CHR ''n''))),
                            (''content'', JString ''body'')]) (Inr [])) Map.empty)
     = Inr (JObject [(''success'', JBool False),
          (''error'', JString ''Invalid agent data: name too long (max 200 characters)'')])
   \<and> (\<exists>v. fst (handle 0
      (Consult_agent (JString ''code reviewer'') (JString ''How?'') (Inr (JString ''answer'')))
      Map.empty) = Inr v \<and> is_failure v)
   \<and> (\<exists>v. fst (handle 0
      (Consult_agent (JString ''code-reviewer'') (JString (replicate 10001 (CHR ''q'')))
         (Inr (JString ''answer''))) Map.empty) = Inr v \<and> is_failure v)
   \<and> fst (handle 0
      (Consult_agent (JString ''code-reviewer'') (JString (replicate 10000 (CHR ''q'')))
         (Inr (JString ''answer''))) Map.empty)
     = Inr (JObject [(''success'', JBool True), (''response'', JString ''answer'')])"
proof -
  let ?data = "JObject [(''name'', JString (replicate 201 (CHR ''n''))),
                        (''content'', JString ''body'')]"
  note inst1 = input_length_checks [where agentData = ?data
      and name = "replicate 201 (CHR ''n'')" and now = 0 and saved = "Inr []"
      and m = Map.empty and content = "''body''" and agentType = "''code reviewer''"
      and query = "JString ''How?''" and consulted = "Inr (JString ''answer'')"
      and q = "replicate 10001 (CHR ''q'')" and anyType = "JString ''code-reviewer''"]
  note inst2 = input_length_checks [where agentData = ?data
      and name = "replicate 201 (CHR ''n'')" and now = 0 and saved = "Inr []"
      and m = Map.empty and content = "''body''" and agentType = "''code-reviewer''"
      and query = "JString ''How?''" and consulted = "Inr (JString ''answer'')"
      and q = "replicate 10000 (CHR ''q'')" and anyType = "JString ''code-reviewer''"]
  have free: "\<not> fst (isRateLimited 0 c Map.empty)" for c
    by (rule isRateLimited_fresh)
  have h1: "get_prop ?data ''name'' = JString (replicate 201 (CHR ''n''))
      \<and> 200 < length (replicate 201 (CHR ''n''))" by simp
  from inst1 [THEN conjunct1, rule_format, OF h1]
  obtain v where v: "fst (handle 0 (Save_agent ?data (Inr [])) Map.empty) = Inr v"
    and "is_failure v" by blast
  have err: "request_error (Save_agent ?data (Inr []))
      = Some (Error ''Invalid agent data: name too long (max 200 characters)'')"
    by (simp add: request_error_def validateAgentData_def)
  have san: "sanitizeErrorMessage (Error ''Invalid agent data: name too long (max 200 characters)'')
      = Inr ''Invalid agent data: name too long (max 200 characters)''"
    by code_simp
  have a1: "fst (handle 0 (Save_agent ?data (Inr [])) Map.empty)
      = Inr (JObject [(''success'', JBool False),
          (''error'', JString ''Invalid agent data: name too long (max 200 characters)'')])"
    using handle_caught [OF free err] v by (simp add: error_response_def san)
  have "\<not> list_all safe_char ''code reviewer''"
    by (simp add: safe_char_def is_lower_def is_upper_def is_digit_def)
  then have h2: "100 < length ''code reviewer'' \<or> \<not> list_all safe_char ''code reviewer''" ..
  have a2: "\<exists>v. fst (handle 0
      (Consult_agent (JString ''code reviewer'') (JString ''How?'') (Inr (JString ''answer'')))
      Map.empty) = Inr v \<and> is_failure v"
    by (rule inst1 [THEN conjunct2, THEN conjunct2, THEN conjunct1, rule_format, OF h2])
  have h3: "10000 < length (replicate 10001 (CHR ''q''))" by simp
  have a3: "\<exists>v. fst (handle 0
      (Consult_agent (JString ''code-reviewer'') (JString (replicate 10001 (CHR ''q'')))
         (Inr (JString ''answer''))) Map.empty) = Inr v \<and> is_failure v"
    by (rule inst1 [THEN conjunct2, THEN conjunct2, THEN conjunct2, THEN conjunct1,
          rule_format, OF h3])
  have h4: "''code-reviewer'' \<noteq> [] \<and> length ''code-reviewer'' \<le> 100
      \<and> list_all safe_char ''code-reviewer''
      \<and> replicate 10000 (CHR ''q'') \<noteq> [] \<and> length (replicate 10000 (CHR ''q'')) \<le> 10000"
    by (simp add: safe_char_def is_lower_def is_upper_def is_digit_def)
  have h5: "\<not> fst (isRateLimited 0 ''consult-agent'' Map.empty)" by (rule free)
  have a4: "fst (handle 0
      (Consult_agent (JString ''code-reviewer'') (JString (replicate 10000 (CHR ''q'')))
         (Inr (JString ''answer''))) Map.empty)
     = Inr (JObject [(''success'', JBool True), (''response'', JString ''answer'')])"
    by (rule inst2 [THEN conjunct2, THEN conjunct2, THEN conjunct2, THEN conjunct2,
          THEN conjunct2, rule_format, OF h4, THEN conjunct2, rule_format, OF h5])
  from a1 a2 a3 a4 show ?thesis by (intro conjI)
qed

section \<open>Properties of the complexity tiers and the consultant table\<close>

lemma foldl_count_filled:
  "foldl (\<lambda>sum category. sum + length (filter P category)) n xss
     = n + length (filter P (concat xss))"
  by (induction xss arbitrary: n) simp_all

lemma nonempty_item_filled: "nonempty_item = filled"
  by (auto simp: nonempty_item_def filled_def fun_eq_iff trim_def)

lemma totalFields_analyze:
  "foldl (\<lambda>sum category. sum + length (filter filled category)) 0 (object_values td)
     = filled_fields td"
  by (simp add: foldl_count_filled filled_fields_def)

lemma totalFields_estimate:
  "foldl (\<lambda>total category. total + length (filter nonempty_item (field td category))) 0 categories
     = filled_fields td"
  by (simp add: categories_def filled_fields_def object_values_def nonempty_item_filled)

text \<open>
  C2 (as amended). The tier is selected by numeric cutoffs on the number of filled
  (non-blank) fields and on the number of documents: more than 50 fields or more than 5
  documents gives the top tier, and everything below the middle cutoff gives the bottom
  tier, in both functions; the middle cutoff on the fields is 20 in
  \<^verbatim>\<open>HeadArchitectAgent.analyzeInputData\<close> and 15 in
  \<^verbatim>\<open>TemplateProcessor.estimateComplexity\<close> (more than 2 documents in both).
\<close>

theorem complexity_tiers:
  "complexity (analyzeInputData td docs) =
     (if 50 < filled_fields td \<or> 5 < length docs then ''complex''
      else if 20 < filled_fields td \<or> 2 < length docs then ''moderate''
      else ''simple'')
   \<and> estimateComplexity td docs =
     (if 50 < filled_fields td \<or> 5 < length docs then ''high''
      else if 15 < filled_fields td \<or> 2 < length docs then ''medium''
      else ''low'')"
  by (simp add: analyzeInputData_def estimateComplexity_def Let_def
      totalFields_analyze totalFields_estimate)

theorem complexity_tiers_witness:
  "filled_fields
     \<lparr> coreFunctions = replicate 12 ''x'', domainExpertise = replicate 12 ''y'',
       inputTypes = replicate 12 '' '', validationRules = replicate 12 '''',
       outputFormat = [], performanceConstraints = [], styleGuide = [],
       integrationTargets = [] \<rparr> = 24
   \<and> complexity (analyzeInputData
     \<lparr> coreFunctions = replicate 12 ''x'', domainExpertise = replicate 12 ''y'',
       inputTypes = replicate 12 '' '', validationRules = replicate 12 '''',
       outputFormat = [], performanceConstraints = [], styleGuide = [],
       integrationTargets = [] \<rparr> []) = ''moderate''
   \<and> estimateComplexity
     \<lparr> coreFunctions = replicate 12 ''x'', domainExpertise = replicate 12 ''y'',
       inputTypes = replicate 12 '' '', validationRules = replicate 12 '''',
       outputFormat = [], performanceConstraints = [], styleGuide = [],
       integrationTargets = [] \<rparr> [] = ''medium''"
proof -
  let ?td = "\<lparr> coreFunctions = replicate 12 ''x'', domainExpertise = replicate 12 ''y'',
       inputTypes = replicate 12 '' '', validationRules = replicate 12 '''',
       outputFormat = [], performanceConstraints = [], styleGuide = [],
       integrationTargets = [] \<rparr>"
  have n: "filled_fields ?td = 24"
    by (simp add: filled_fields_def object_values_def filled_def trim_def is_space_def)
  show ?thesis
    using complexity_tiers [of ?td "[]"] n by simp
qed

text \<open>
  C2 as the specification words it, with the cutoff 20 for both functions and a count of
  the fields that are not empty, fails twice: for \<^verbatim>\<open>estimateComplexity\<close> a template
  with 16 filled fields and no document is in the middle tier; and a field of white space
  only is not empty but is not counted, so a template with 21 such fields and no document
  is in the bottom tier of \<^verbatim>\<open>analyzeInputData\<close>.
\<close>

theorem estimateComplexity_cutoff_counterexample:
  "filled_fields
     \<lparr> coreFunctions = replicate 12 ''x'', domainExpertise = replicate 4 ''y'',
       inputTypes = [], validationRules = [], outputFormat = [],
       performanceConstraints = [], styleGuide = [], integrationTargets = [] \<rparr> = 16
   \<and> \<not> 20 < (16::nat) \<and> \<not> 2 < length ([] :: document list)
   \<and> estimateComplexity
     \<lparr> coreFunctions = replicate 12 ''x'', domainExpertise = replicate 4 ''y'',
       inputTypes = [], validationRules = [], outputFormat = [],
       performanceConstraints = [], styleGuide = [], integrationTargets = [] \<rparr> []
       = ''medium''
   \<and> estimateComplexity
     \<lparr> coreFunctions = replicate 12 ''x'', domainExpertise = replicate 4 ''y'',
       inputTypes = [], validationRules = [], outputFormat = [],
       performanceConstraints = [], styleGuide = [], integrationTargets = [] \<rparr> []
       \<noteq> ''low''
   \<and> length (filter (\<lambda>f. f \<noteq> []) (concat (object_values
     \<lparr> coreFunctions = replicate 12 '' '', domainExpertise = replicate 9 '' '',
       inputTypes = [], validationRules = [], outputFormat = [],
       performanceConstraints = [], styleGuide = [], integrationTargets = [] \<rparr>))) = 21
   \<and> complexity (analyzeInputData
     \<lparr> coreFunctions = replicate 12 '' '', domainExpertise = replicate 9 '' '',
       inputTypes = [], validationRules = [], outputFormat = [],
       performanceConstraints = [], styleGuide = [], integrationTargets = [] \<rparr> [])
       = ''simple''"
proof -
  let ?td = "\<lparr> coreFunctions = replicate 12 ''x'', domainExpertise = replicate 4 ''y'',
       inputTypes = [], validationRules = [], outputFormat = [],
       performanceConstraints = [], styleGuide = [], integrationTargets = [] \<rparr>"
  let ?blank = "\<lparr> coreFunctions = replicate 12 '' '', domainExpertise = replicate 9 '' '',
       inputTypes = [], validationRules = [], outputFormat = [],
       performanceConstraints = [], styleGuide = [], integrationTargets = [] \<rparr>"
  have n: "filled_fields ?td = 16"
    by (simp add: filled_fields_def object_values_def filled_def trim_def is_space_def)
  have medium: "estimateComplexity ?td [] = ''medium''"
    by (simp add: estimateComplexity_def Let_def totalFields_estimate n)
  have present: "length (filter (\<lambda>f. f \<noteq> []) (concat (object_values ?blank))) = 21"
    by (simp add: object_values_def)
  have none: "filled_fields ?blank = 0"
    by (simp add: filled_fields_def object_values_def filled_def trim_def is_space_def)
  have simple: "complexity (analyzeInputData ?blank []) = ''simple''"
    by (simp add: analyzeInputData_def Let_def totalFields_analyze none)
  from n medium present simple show ?thesis by simp
qed

lemma str_includes_sublist: "str_includes s k \<longleftrightarrow> sublist k s"
  by (induction s) (auto simp: sublist_Cons_right)

lemma foldl_push_matching:
  "foldl (\<lambda>consultants (agent, keywords).
            if P keywords then consultants @ [agent] else consultants) acc table
     = acc @ map fst (filter (\<lambda>(agent, keywords). P keywords) table)"
  by (induction table arbitrary: acc) (auto split: prod.splits)

text \<open>
  C6. \<^verbatim>\<open>suggestConsultants\<close> returns the agent names of the keyword table for which some
  listed keyword occurs as a substring of the lower-cased, space-joined concatenation of all
  field values, in the order of the table, cut to the first three.
\<close>

theorem suggestConsultants_table_matches:
  "suggestConsultants td =
     take 3 (map fst (filter
       (\<lambda>(agent, keywords).
          \<exists>keyword \<in> set keywords.
            sublist keyword (toLowerCase (join '' '' (concat (object_values td)))))
       agentKeywords))"
  by (simp add: suggestConsultants_def Let_def foldl_push_matching str_includes_sublist
      list_ex_iff)

theorem suggestConsultants_table_matches_witness:
  "suggestConsultants
     \<lparr> coreFunctions = [''Query the SQL store''], domainExpertise = [''Best''],
       inputTypes = [''Practice''], validationRules = [], outputFormat = [''QA''],
       performanceConstraints = [], styleGuide = [''High speed''],
       integrationTargets = [] \<rparr>
     = [''database-optimizer'', ''code-reviewer'', ''test-automator'']
   \<and> take 3 (map fst (filter
       (\<lambda>(agent, keywords).
          \<exists>keyword \<in> set keywords.
            sublist keyword (toLowerCase (join '' '' (concat (object_values
     \<lparr> coreFunctions = [''Query the SQL store''], domainExpertise = [''Best''],
       inputTypes = [''Practice''], validationRules = [], outputFormat = [''QA''],
       performanceConstraints = [], styleGuide = [''High speed''],
       integrationTargets = [] \<rparr>)))))
       agentKeywords))
     = [''database-optimizer'', ''code-reviewer'', ''test-automator'']"
proof -
  let ?td = "\<lparr> coreFunctions = [''Query the SQL store''], domainExpertise = [''Best''],
       inputTypes = [''Practice''], validationRules = [], outputFormat = [''QA''],
       performanceConstraints = [], styleGuide = [''High speed''],
       integrationTargets = [] \<rparr>"
  have lowered: "toLowerCase (join '' '' (concat (object_values ?td)))
      = ''query the sql store best practice qa high speed''"
    by code_simp
  have "suggestConsultants ?td = [''database-optimizer'', ''code-reviewer'', ''test-automator'']"
    unfolding suggestConsultants_def Let_def lowered
    by (simp add: agentKeywords_def)
  with suggestConsultants_table_matches [of ?td] show ?thesis by simp
qed

section \<open>Properties of createSpecification\<close>

lemma push_lines_append: "push_lines sections lines = sections @ lines"
  unfolding push_lines_def by (induction lines arbitrary: sections) (simp_all add: push_def)

lemma foldl_push_map: "foldl (\<lambda>s x. push s (f x)) sections xs = sections @ map f xs"
  by (induction xs arbitrary: sections) (simp_all add: push_def)

lemma foldl_push_filter:
  "foldl (\<lambda>s x. if P x then push s (f x) else s) sections xs = sections @ map f (filter P xs)"
  by (induction xs arbitrary: sections) (simp_all add: push_def)

lemma foldl_snoc_map: "foldl (\<lambda>s x. s @ [f x]) sections xs = sections @ map f xs"
  by (induction xs arbitrary: sections) simp_all

lemma foldl_snoc_filter:
  "foldl (\<lambda>s x. if P x then s @ [f x] else s) sections xs = sections @ map f (filter P xs)"
  by (induction xs arbitrary: sections) simp_all

lemma push_header_lines:
  "push_header agentName agentType an generated sections
     = sections @ header_lines agentName agentType (complexity an) generated"
  by (simp add: push_header_def header_lines_def push_lines_append)

lemma push_overview_lines:
  "push_overview agentType td sections = sections @ overview_lines agentType (coreFunctions td)"
proof -
  have "foldl (\<lambda>s (i, func). push s (show_nat (i + 1) @ ''. '' @ func)) s xs
      = s @ map (\<lambda>(i, func). show_nat (i + 1) @ ''. '' @ func) xs" for s xs
    using foldl_push_map [of "\<lambda>(i, func). show_nat (i + 1) @ ''. '' @ func" s xs]
    by (simp add: case_prod_unfold)
  then show ?thesis
    by (simp add: push_overview_def overview_lines_def Let_def push_lines_append push_def
        filled_def [abs_def])
qed

lemma push_category_section:
  "push_category headings entries sections = sections @ category_section headings entries"
  by (simp add: push_category_def category_section_def push_lines_append foldl_snoc_map
      push_def list_ex_iff filled_def [abs_def])

lemma push_documents_section:
  "push_documents docs sections = sections @ documents_section docs"
  by (simp add: push_documents_def documents_section_def Let_def push_lines_append
      foldl_push_map foldl_snoc_map document_line_def [abs_def])

lemma consultation_items_named:
  "map consultation_line (filter named consultations)
     = concat (map consultation_items consultations)"
  by (induction consultations)
     (auto simp: named_def consultation_line_def consultation_items_def
           split: option.splits)

lemma push_consultations_section:
  "push_consultations consultations sections = sections @ consultations_section consultations"
  by (simp add: push_consultations_def consultations_section_def Let_def push_lines_append
      foldl_push_filter foldl_snoc_filter push_def consultation_items_named)

lemma push_closing_lines:
  "push_footer an consultations (push_quality_and_usage agentType sections)
     = sections @ closing_lines agentType (complexity an) (length consultations)"
  by (simp add: push_footer_def push_quality_and_usage_def closing_lines_def footer_line_def
      push_lines_append)

lemma specification_sections_layout:
  "specification_sections agentName agentType td docs an consultations generated =
     (header_lines agentName agentType (complexity an) generated
        @ overview_lines agentType (coreFunctions td)
        @ [''## Core Specifications'', '''']
        @ category_section [''### Primary Functions''] (coreFunctions td)
        @ category_section [''### Domain Expertise''] (domainExpertise td)
        @ [''## Technical Requirements'', '''']
        @ category_section [''### Input Interface'', ''**Expected inputs:**''] (inputTypes td)
        @ category_section [''### Validation Rules''] (validationRules td)
        @ category_section [''### Output Contract'', ''**Return format:**''] (outputFormat td)
        @ category_section [''### Performance Constraints''] (performanceConstraints td)
        @ category_section [''## Implementation Guidelines'', '''', ''### Code Style'']
            (styleGuide td)
        @ category_section [''### Integration Points'', ''Must interface with:'']
            (integrationTargets td)
        @ documents_section docs
        @ consultations_section consultations
        @ closing_lines agentType (complexity an) (length consultations))"
  unfolding specification_sections_def comp_def
  by (simp only: push_closing_lines push_consultations_section push_documents_section
      push_category_section push_lines_append push_overview_lines push_header_lines
      append_Nil append_assoc)

lemma join_Cons2: "ys \<noteq> [] \<Longrightarrow> join sep (x # ys) = x @ sep @ join sep ys"
  by (cases ys) simp_all

lemma join_snoc: "xs \<noteq> [] \<Longrightarrow> join sep (xs @ [x]) = join sep xs @ sep @ x"
  by (induction sep xs rule: join.induct) simp_all

lemma sublist_middle: "sublist t (front @ t @ back)"
  by (auto simp: sublist_def)

lemma sublist_join: "x \<in> set xs \<Longrightarrow> sublist x (join sep xs)"
proof (induction sep xs rule: join.induct)
  case (3 sep y z zs)
  show ?case
  proof (cases "x = y")
    case True
    then show ?thesis using sublist_middle [of y "[]" "sep @ join sep (z # zs)"] by simp
  next
    case False
    with 3 have "sublist x (join sep (z # zs))" by simp
    then show ?thesis by (simp add: sublist_append)
  qed
qed simp_all

text \<open>
  C8. \<^verbatim>\<open>createSpecification\<close> returns the lines of the specification joined by line
  feeds: the header, the overview, the section of each category, the documents' section,
  the consultations' section, and the closing lines. The text begins with
  \<^verbatim>\<open># Subagent: \<close> and the agent name. Each category has its section, which is there
  only when the category has an entry that is not blank, and which lists the entries
  that are not blank as list items under the category's headings. When the list of
  consultations is not empty, the text has the line \<^verbatim>\<open>## Expert Consultations\<close>, and for
  each consultation with an agent type it has the line with that type in bold and
  whether the agent was available: the agent type occurs in the text. When the list is
  empty the section is missing. The text ends with the footer line that states the
  complexity tier and the number of consultations.
\<close>

theorem createSpecification_layout:
  "createSpecification agentName agentType td docs an consultations generated =
     join [CHR 0x0A]
       (header_lines agentName agentType (complexity an) generated
        @ overview_lines agentType (coreFunctions td)
        @ [''## Core Specifications'', '''']
        @ category_section [''### Primary Functions''] (coreFunctions td)
        @ category_section [''### Domain Expertise''] (domainExpertise td)
        @ [''## Technical Requirements'', '''']
        @ category_section [''### Input Interface'', ''**Expected inputs:**''] (inputTypes td)
        @ category_section [''### Validation Rules''] (validationRules td)
        @ category_section [''### Output Contract'', ''**Return format:**''] (outputFormat td)
        @ category_section [''### Performance Constraints''] (performanceConstraints td)
        @ category_section [''## Implementation Guidelines'', '''', ''### Code Style'']
            (styleGuide td)
        @ category_section [''### Integration Points'', ''Must interface with:'']
            (integrationTargets td)
        @ documents_section docs
        @ consultations_section consultations
        @ closing_lines agentType (complexity an) (length consultations))
   \<and> (\<exists>rest. createSpecification agentName agentType td docs an consultations generated
          = ''# Subagent: '' @ agentName @ rest)
   \<and> (\<exists>front. createSpecification agentName agentType td docs an consultations generated
          = front @ ''*Head Architect: Complexity '' @ complexity an @ '', ''
              @ show_nat (length consultations) @ '' consultations*'')
   \<and> (consultations \<noteq> [] \<longrightarrow>
        ''## Expert Consultations''
          \<in> set (specification_sections agentName agentType td docs an consultations generated)
        \<and> sublist ''## Expert Consultations''
            (createSpecification agentName agentType td docs an consultations generated))
   \<and> (\<forall>r t. Some r \<in> set consultations \<and> c_agentType r = Some t \<and> t \<noteq> [] \<longrightarrow>
        ''- **'' @ t @ ''**: '' @ (if c_available r then ''Provided guidance'' else ''Not available'')
          \<in> set (specification_sections agentName agentType td docs an consultations generated)
        \<and> sublist (''- **'' @ t @ ''**: ''
              @ (if c_available r then ''Provided guidance'' else ''Not available''))
            (createSpecification agentName agentType td docs an consultations generated)
        \<and> sublist t
            (createSpecification agentName agentType td docs an consultations generated))
   \<and> (consultations = [] \<longrightarrow> consultations_section consultations = [])"
proof -
  let ?sections = "specification_sections agentName agentType td docs an consultations generated"
  let ?text = "createSpecification agentName agentType td docs an consultations generated"
  note layout = specification_sections_layout
    [of agentName agentType td docs an consultations generated]
  have whole: "?text = join [CHR 0x0A] ?sections"
    by (simp add: createSpecification_def)
  obtain tail where head: "?sections = (''# Subagent: '' @ agentName) # tail" and "tail \<noteq> []"
    unfolding layout by (simp add: header_lines_def)
  then have "join [CHR 0x0A] ?sections
      = ''# Subagent: '' @ agentName @ ([CHR 0x0A] @ join [CHR 0x0A] tail)"
    by (simp add: join_Cons2)
  then have prefix: "\<exists>rest. ?text = ''# Subagent: '' @ agentName @ rest"
    unfolding whole by blast
  let ?footer = "''*Head Architect: Complexity '' @ complexity an @ '', ''
        @ show_nat (length consultations) @ '' consultations*''"
  obtain body where last: "?sections = body @ [?footer]" and "body \<noteq> []"
  proof -
    have "closing_lines agentType (complexity an) (length consultations)
        = butlast (closing_lines agentType (complexity an) (length consultations)) @ [?footer]"
      by (simp add: closing_lines_def)
    then have "?sections
        = (header_lines agentName agentType (complexity an) generated
           @ overview_lines agentType (coreFunctions td)
           @ [''## Core Specifications'', '''']
           @ category_section [''### Primary Functions''] (coreFunctions td)
           @ category_section [''### Domain Expertise''] (domainExpertise td)
           @ [''## Technical Requirements'', '''']
           @ category_section [''### Input Interface'', ''**Expected inputs:**''] (inputTypes td)
           @ category_section [''### Validation Rules''] (validationRules td)
           @ category_section [''### Output Contract'', ''**Return format:**''] (outputFormat td)
           @ category_section [''### Performance Constraints''] (performanceConstraints td)
           @ category_section [''## Implementation Guidelines'', '''', ''### Code Style'']
               (styleGuide td)
           @ category_section [''### Integration Points'', ''Must interface with:'']
               (integrationTargets td)
           @ documents_section docs
           @ consultations_section consultations
           @ butlast (closing_lines agentType (complexity an) (length consultations)))
          @ [?footer]"
      unfolding layout by (simp only: append_assoc)
    moreover have "header_lines agentName agentType (complexity an) generated \<noteq> []"
      by (simp add: header_lines_def)
    ultimately show ?thesis using that by blast
  qed
  then have "join [CHR 0x0A] ?sections = (join [CHR 0x0A] body @ [CHR 0x0A]) @ ?footer"
    by (simp add: join_snoc)
  then have suffix: "\<exists>front. ?text = front @ ?footer"
    unfolding whole by blast
  have section_lines: "line \<in> set ?sections" if "line \<in> set (consultations_section consultations)"
    for line
    using that unfolding layout by simp
  have in_text: "sublist line ?text" if "line \<in> set ?sections" for line
    unfolding whole using that by (rule sublist_join)
  have heading: "''## Expert Consultations'' \<in> set ?sections
      \<and> sublist ''## Expert Consultations'' ?text"
    if "consultations \<noteq> []"
  proof -
    from that have "''## Expert Consultations'' \<in> set (consultations_section consultations)"
      by (simp add: consultations_section_def)
    then have "''## Expert Consultations'' \<in> set ?sections" by (rule section_lines)
    then show ?thesis using in_text by blast
  qed
  have names: "''- **'' @ t @ ''**: ''
          @ (if c_available r then ''Provided guidance'' else ''Not available'') \<in> set ?sections
      \<and> sublist (''- **'' @ t @ ''**: ''
            @ (if c_available r then ''Provided guidance'' else ''Not available'')) ?text
      \<and> sublist t ?text"
    if "Some r \<in> set consultations \<and> c_agentType r = Some t \<and> t \<noteq> []" for r t
  proof -
    let ?line = "''- **'' @ t @ ''**: ''
        @ (if c_available r then ''Provided guidance'' else ''Not available'')"
    from that have "?line \<in> set (consultation_items (Some r))"
      by (simp add: consultation_items_def)
    with that have "?line \<in> set (concat (map consultation_items consultations))"
      by (simp only: set_concat set_map) blast
    moreover from that have "consultations \<noteq> []" by auto
    ultimately have "?line \<in> set (consultations_section consultations)"
      by (simp add: consultations_section_def)
    then have line: "?line \<in> set ?sections" by (rule section_lines)
    then have occurs: "sublist ?line ?text" by (rule in_text)
    have "sublist t ?line" by (rule sublist_middle)
    with occurs have "sublist t ?text" using sublist_order.order_trans by blast
    with line occurs show ?thesis by (intro conjI)
  qed
  have none: "consultations_section consultations = []" if "consultations = []"
    using that by (simp add: consultations_section_def)
  have equation: "?text = join [CHR 0x0A]
       (header_lines agentName agentType (complexity an) generated
        @ overview_lines agentType (coreFunctions td)
        @ [''## Core Specifications'', '''']
        @ category_section [''### Primary Functions''] (coreFunctions td)
        @ category_section [''### Domain Expertise''] (domainExpertise td)
        @ [''## Technical Requirements'', '''']
        @ category_section [''### Input Interface'', ''**Expected inputs:**''] (inputTypes td)
        @ category_section [''### Validation Rules''] (validationRules td)
        @ category_section [''### Output Contract'', ''**Return format:**''] (outputFormat td)
        @ category_section [''### Performance Constraints''] (performanceConstraints td)
        @ category_section [''## Implementation Guidelines'', '''', ''### Code Style'']
            (styleGuide td)
        @ category_section [''### Integration Points'', ''Must interface with:'']
            (integrationTargets td)
        @ documents_section docs
        @ consultations_section consultations
        @ closing_lines agentType (complexity an) (length consultations))"
    unfolding whole layout ..
  show ?thesis
    using equation prefix suffix heading names none by (intro conjI impI allI) blast+
qed

theorem createSpecification_layout_witness:
  "createSpecification ''Parser'' ''backend-developer''
     \<lparr> coreFunctions = [''Parse JSON'', '''', ''  '', ''Validate''], domainExpertise = [''''],
       inputTypes = [''JSON''], validationRules = [], outputFormat = [],
       performanceConstraints = [], styleGuide = [''PEP 8''], integrationTargets = [] \<rparr>
     [\<lparr> doc_name = ''a.pdf'', doc_path = ''/docs/a.pdf'', doc_text = Some ''hello'',
        doc_pages = 3 \<rparr>]
     \<lparr> coreFunctionCount = 2, domainExpertiseCount = 0, hasDocuments = True,
       documentCount = 1, totalDocumentPages = 3, complexity = ''simple'',
       suggestedConsultants = [] \<rparr>
     [Some \<lparr> c_agentType = Some ''code-reviewer'', c_available = True \<rparr>, None,
      Some \<lparr> c_agentType = None, c_available = False \<rparr>]
     ''2025-10-25T00:00:00.000Z''
   = join [CHR 0x0A]
      [''# Subagent: Parser'',
       '''',
       ''**Generated**: 2025-10-25T00:00:00.000Z'',
       ''**Version**: 1.0.0'',
       ''**Type**: backend-developer'',
       ''**Complexity**: simple'',
       '''',
       ''---'',
       '''',
       ''## Overview'',
       ''This is a specialized backend-developer subagent designed for:'',
       ''1. Parse JSON'',
       ''2. Validate'',
       '''',
       ''## Core Specifications'',
       '''',
       ''### Primary Functions'',
       ''- Parse JSON'',
       ''- Validate'',
       '''',
       ''## Technical Requirements'',
       '''',
       ''### Input Interface'',
       ''**Expected inputs:**'',
       ''- JSON'',
       '''',
       ''## Implementation Guidelines'',
       '''',
       ''### Code Style'',
       ''- PEP 8'',
       '''',
       ''## Contextual Documentation'',
       '''',
       ''This subagent was generated with 1 supporting document(s):'',
       ''- **a.pdf** (3 pages, 5 characters)'',
       '''',
       ''### Key Insights from Documents'',
       ''The uploaded documents provide additional context and requirements that should be considered in the implementation.'',
       '''',
       ''## Expert Consultations'',
       '''',
       ''This subagent design was informed by consulting the following expert agents:'',
       ''- **code-reviewer**: Provided guidance'',
       '''',
       ''## Quality Criteria'',
       '''',
       ''This subagent must meet the following quality standards:'',
       ''- Production-ready code, not proof-of-concept'',
       ''- Comprehensive error handling with informative messages'',
       ''- Type hints for all functions where applicable'',
       ''- Inline documentation for complex logic'',
       ''- Test coverage for critical functionality'',
       ''- Idempotent operations where applicable'',
       '''',
       ''## Usage Instructions'',
       '''',
       ''This subagent should be used for tasks related to backend-developer.'',
       ''Import and integrate according to your project structure.'',
       '''',
       ''---'',
       '''',
       ''*Generated by Claude Subagent Generator v1.0.0*'',
       ''*Head Architect: Complexity simple, 3 consultations*'']
   \<and> sublist ''code-reviewer''
       (createSpecification ''Parser'' ''backend-developer''
     \<lparr> coreFunctions = [''Parse JSON'', '''', ''  '', ''Validate''], domainExpertise = [''''],
       inputTypes = [''JSON''], validationRules = [], outputFormat = [],
       performanceConstraints = [], styleGuide = [''PEP 8''], integrationTargets = [] \<rparr>
     [\<lparr> doc_name = ''a.pdf'', doc_path = ''/docs/a.pdf'', doc_text = Some ''hello'',
        doc_pages = 3 \<rparr>]
     \<lparr> coreFunctionCount = 2, domainExpertiseCount = 0, hasDocuments = True,
       documentCount = 1, totalDocumentPages = 3, complexity = ''simple'',
       suggestedConsultants = [] \<rparr>
     [Some \<lparr> c_agentType = Some ''code-reviewer'', c_available = True \<rparr>, None,
      Some \<lparr> c_agentType = None, c_available = False \<rparr>]
     ''2025-10-25T00:00:00.000Z'')"
proof -
  let ?td = "\<lparr> coreFunctions = [''Parse JSON'', '''', ''  '', ''Validate''], domainExpertise = [''''],
       inputTypes = [''JSON''], validationRules = [], outputFormat = [],
       performanceConstraints = [], styleGuide = [''PEP 8''], integrationTargets = [] \<rparr>"
  let ?docs = "[\<lparr> doc_name = ''a.pdf'', doc_path = ''/docs/a.pdf'', doc_text = Some ''hello'',
        doc_pages = 3 \<rparr>]"
  let ?an = "\<lparr> coreFunctionCount = 2, domainExpertiseCount = 0, hasDocuments = True,
       documentCount = 1, totalDocumentPages = 3, complexity = ''simple'',
       suggestedConsultants = [] \<rparr>"
  let ?cs = "[Some \<lparr> c_agentType = Some ''code-reviewer'', c_available = True \<rparr>, None,
      Some \<lparr> c_agentType = None, c_available = False \<rparr>]"
  let ?lines = "[''# Subagent: Parser'',
       '''',
       ''**Generated**: 2025-10-25T00:00:00.000Z'',
       ''**Version**: 1.0.0'',
       ''**Type**: backend-developer'',
       ''**Complexity**: simple'',
       '''',
       ''---'',
       '''',
       ''## Overview'',
       ''This is a specialized backend-developer subagent designed for:'',
       ''1. Parse JSON'',
       ''2. Validate'',
       '''',
       ''## Core Specifications'',
       '''',
       ''### Primary Functions'',
       ''- Parse JSON'',
       ''- Validate'',
       '''',
       ''## Technical Requirements'',
       '''',
       ''### Input Interface'',
       ''**Expected inputs:**'',
       ''- JSON'',
       '''',
       ''## Implementation Guidelines'',
       '''',
       ''### Code Style'',
       ''- PEP 8'',
       '''',
       ''## Contextual Documentation'',
       '''',
       ''This subagent was generated with 1 supporting document(s):'',
       ''- **a.pdf** (3 pages, 5 characters)'',
       '''',
       ''### Key Insights from Documents'',
       ''The uploaded documents provide additional context and requirements that should be considered in the implementation.'',
       '''',
       ''## Expert Consultations'',
       '''',
       ''This subagent design was informed by consulting the following expert agents:'',
       ''- **code-reviewer**: Provided guidance'',
       '''',
       ''## Quality Criteria'',
       '''',
       ''This subagent must meet the following quality standards:'',
       ''- Production-ready code, not proof-of-concept'',
       ''- Comprehensive error handling with informative messages'',
       ''- Type hints for all functions where applicable'',
       ''- Inline documentation for complex logic'',
       ''- Test coverage for critical functionality'',
       ''- Idempotent operations where applicable'',
       '''',
       ''## Usage Instructions'',
       '''',
       ''This subagent should be used for tasks related to backend-developer.'',
       ''Import and integrate according to your project structure.'',
       '''',
       ''---'',
       '''',
       ''*Generated by Claude Subagent Generator v1.0.0*'',
       ''*Head Architect: Complexity simple, 3 consultations*'']"
  note whole = createSpecification_layout
    [of "''Parser''" "''backend-developer''" ?td ?docs ?an ?cs "''2025-10-25T00:00:00.000Z''"]
  note inst = whole [THEN conjunct1]
  note named_type = whole [THEN conjunct2, THEN conjunct2, THEN conjunct2, THEN conjunct2,
    THEN conjunct1, rule_format,
    of "\<lparr> c_agentType = Some ''code-reviewer'', c_available = True \<rparr>" "''code-reviewer''"]
  have header: "header_lines ''Parser'' ''backend-developer'' (complexity ?an)
        ''2025-10-25T00:00:00.000Z''
      = [''# Subagent: Parser'', '''', ''**Generated**: 2025-10-25T00:00:00.000Z'',
         ''**Version**: 1.0.0'', ''**Type**: backend-developer'', ''**Complexity**: simple'',
         '''', ''---'', '''']"
    by code_simp
  have overview: "overview_lines ''backend-developer'' (coreFunctions ?td)
      = [''## Overview'', ''This is a specialized backend-developer subagent designed for:'',
         ''1. Parse JSON'', ''2. Validate'', '''']"
    by code_simp
  have core: "category_section [''### Primary Functions''] (coreFunctions ?td)
      = [''### Primary Functions'', ''- Parse JSON'', ''- Validate'', '''']"
    by code_simp
  have domain: "category_section [''### Domain Expertise''] (domainExpertise ?td) = []"
    by code_simp
  have inputs: "category_section [''### Input Interface'', ''**Expected inputs:**'']
      (inputTypes ?td) = [''### Input Interface'', ''**Expected inputs:**'', ''- JSON'', '''']"
    by code_simp
  have empties: "category_section [''### Validation Rules''] (validationRules ?td) = []"
    "category_section [''### Output Contract'', ''**Return format:**''] (outputFormat ?td) = []"
    "category_section [''### Performance Constraints''] (performanceConstraints ?td) = []"
    "category_section [''### Integration Points'', ''Must interface with:'']
       (integrationTargets ?td) = []"
    by (simp_all add: category_section_def)
  have style: "category_section [''## Implementation Guidelines'', '''', ''### Code Style'']
      (styleGuide ?td) = [''## Implementation Guidelines'', '''', ''### Code Style'', ''- PEP 8'', '''']"
    by code_simp
  have documents: "documents_section ?docs
      = [''## Contextual Documentation'', '''',
         ''This subagent was generated with 1 supporting document(s):'',
         ''- **a.pdf** (3 pages, 5 characters)'', '''',
         ''### Key Insights from Documents'',
         ''The uploaded documents provide additional context and requirements that should be considered in the implementation.'',
         '''']"
    by code_simp
  have consulted: "consultations_section ?cs
      = [''## Expert Consultations'', '''',
         ''This subagent design was informed by consulting the following expert agents:'',
         ''- **code-reviewer**: Provided guidance'', '''']"
    by code_simp
  have closing: "closing_lines ''backend-developer'' (complexity ?an) (length ?cs)
      = [''## Quality Criteria'', '''',
         ''This subagent must meet the following quality standards:'',
         ''- Production-ready code, not proof-of-concept'',
         ''- Comprehensive error handling with informative messages'',
         ''- Type hints for all functions where applicable'',
         ''- Inline documentation for complex logic'',
         ''- Test coverage for critical functionality'',
         ''- Idempotent operations where applicable'', '''',
         ''## Usage Instructions'', '''',
         ''This subagent should be used for tasks related to backend-developer.'',
         ''Import and integrate according to your project structure.'', '''',
         ''---'', '''', ''*Generated by Claude Subagent Generator v1.0.0*'',
         ''*Head Architect: Complexity simple, 3 consultations*'']"
    by code_simp
  have equation: "createSpecification ''Parser'' ''backend-developer'' ?td ?docs ?an ?cs
      ''2025-10-25T00:00:00.000Z'' = join [CHR 0x0A] ?lines"
    unfolding inst header overview core domain inputs empties style documents consulted closing
    by (simp only: append.simps)
  have "Some \<lparr> c_agentType = Some ''code-reviewer'', c_available = True \<rparr> \<in> set ?cs
      \<and> c_agentType \<lparr> c_agentType = Some ''code-reviewer'', c_available = True \<rparr>
          = Some ''code-reviewer''
      \<and> ''code-reviewer'' \<noteq> []"
    by simp
  then have occurs: "sublist ''code-reviewer''
      (createSpecification ''Parser'' ''backend-developer'' ?td ?docs ?an ?cs
         ''2025-10-25T00:00:00.000Z'')"
    by (rule named_type [THEN conjunct2, THEN conjunct2])
  from equation occurs show ?thesis ..
qed

section \<open>Properties of the useAgentGenerator hook\<close>

lemma field_set_field_same [simp]: "field (set_field c v td) c = v"
  by (cases c) simp_all

lemma field_set_field_other [simp]: "c' \<noteq> c \<Longrightarrow> field (set_field c v td) c' = field td c'"
  by (cases c; cases c') simp_all

lemma map_index_replace:
  "map (\<lambda>(i, item). if int i = int n + index then val else item) (enumerate n xs)
     = (if 0 \<le> index \<and> nat index < length xs then xs[nat index := val] else xs)"
proof (induction xs arbitrary: n index)
  case Nil
  show ?case by simp
next
  case (Cons x xs)
  have "map (\<lambda>(i, item). if int i = int n + index then val else item) (enumerate (Suc n) xs)
      = (if 0 \<le> index - 1 \<and> nat (index - 1) < length xs then xs[nat (index - 1) := val] else xs)"
    using Cons.IH [of "Suc n" "index - 1"] by simp
  then show ?case
    by (cases "index = 0") (auto simp: nat_diff_distrib' split: nat.splits simp: list_update_code)
qed

lemma updateTemplateField_field:
  "field (templateData (updateTemplateField c index val st)) c' =
     (if c' = c \<and> 0 \<le> index \<and> nat index < length (field (templateData st) c)
      then (field (templateData st) c)[nat index := val]
      else field (templateData st) c')"
  using map_index_replace [of 0 index val "field (templateData st) c"]
  by (cases "c' = c") (simp_all add: updateTemplateField_def)

lemma all_twelve_iff: "all_twelve st \<longleftrightarrow> (\<forall>c. length (field (templateData st) c) = 12)"
proof -
  have "set categories = UNIV"
  proof -
    have "c \<in> set categories" for c
      by (cases c) (simp_all add: categories_def)
    then show ?thesis by auto
  qed
  then show ?thesis by (simp add: all_twelve_def list_all_iff)
qed

lemma initial_field: "field initial_templateData c = replicate 12 ''''"
  by (cases c) (simp_all add: initial_templateData_def)

lemma hook_step_all_twelve: "all_twelve st \<Longrightarrow> all_twelve (hook_step st op)"
proof (cases op)
  case (UpdateTemplateField c index val)
  assume "all_twelve st"
  then show ?thesis
    by (simp add: all_twelve_iff UpdateTemplateField updateTemplateField_field)
next
  case (AddDocument n f result)
  assume "all_twelve st"
  then show ?thesis
    by (simp add: all_twelve_iff AddDocument addDocument_def split: pdf_result.splits)
next
  case (RemoveDocument index)
  assume "all_twelve st"
  then show ?thesis by (simp add: all_twelve_iff RemoveDocument removeDocument_def)
next
  case (GenerateAgent td docs agentName agentType timestamp)
  assume "all_twelve st"
  then show ?thesis by (simp add: all_twelve_iff GenerateAgent generateAgent_def)
next
  case (SaveAgent result)
  assume "all_twelve st"
  then show ?thesis
    by (simp add: all_twelve_iff SaveAgent saveAgent_def split: save_result.splits)
next
  case ResetForm
  show ?thesis by (simp add: all_twelve_iff ResetForm resetForm_def initial_field)
qed

lemma hook_run_all_twelve: "all_twelve st \<Longrightarrow> all_twelve (foldl hook_step st ops)"
  by (induction ops arbitrary: st) (simp_all add: hook_step_all_twelve)

text \<open>
  C5. Each of the eight categories is an array of twelve empty strings at initialization,
  and after any sequence of operations of the hook each category still has twelve
  elements. \<^verbatim>\<open>updateTemplateField\<close> never changes a length: for an index of the array it
  replaces the element at that position and nothing else, and it leaves every other
  category as it was. \<^verbatim>\<open>resetForm\<close> restores the eight arrays of twelve empty strings.
\<close>

theorem templateData_twelve_slots:
  "(\<forall>c. field (templateData initial_state) c = replicate 12 '''')
   \<and> (\<forall>c. length (field (templateData (foldl hook_step initial_state ops)) c) = 12)
   \<and> (\<forall>c'. length (field (templateData (updateTemplateField c index val st)) c')
             = length (field (templateData st) c'))
   \<and> (0 \<le> index \<and> nat index < length (field (templateData st) c) \<longrightarrow>
         field (templateData (updateTemplateField c index val st)) c
           = (field (templateData st) c)[nat index := val])
   \<and> (\<forall>c'. c' \<noteq> c \<longrightarrow>
         field (templateData (updateTemplateField c index val st)) c'
           = field (templateData st) c')
   \<and> (\<forall>c. field (templateData (resetForm st)) c = replicate 12 '''')"
proof -
  have init: "\<forall>c. field (templateData initial_state) c = replicate 12 ''''"
    by (simp add: initial_state_def initial_field)
  then have "all_twelve initial_state"
    by (simp add: all_twelve_iff)
  then have "all_twelve (foldl hook_step initial_state ops)"
    by (rule hook_run_all_twelve)
  then have run: "\<forall>c. length (field (templateData (foldl hook_step initial_state ops)) c) = 12"
    by (simp add: all_twelve_iff)
  have reset: "\<forall>c. field (templateData (resetForm st)) c = replicate 12 ''''"
    by (simp add: resetForm_def initial_field)
  show ?thesis
    using init run reset by (simp add: updateTemplateField_field)
qed

theorem templateData_twelve_slots_witness:
  "field (templateData (updateTemplateField DomainExpertise 11 ''REST''
      (foldl hook_step initial_state
         [UpdateTemplateField CoreFunctions 0 ''Parse'', ResetForm,
          UpdateTemplateField CoreFunctions 3 ''Validate'']))) DomainExpertise
     = replicate 11 '''' @ [''REST'']
   \<and> field (templateData (updateTemplateField DomainExpertise 11 ''REST''
      (foldl hook_step initial_state
         [UpdateTemplateField CoreFunctions 0 ''Parse'', ResetForm,
          UpdateTemplateField CoreFunctions 3 ''Validate'']))) CoreFunctions
     = [[], [], [], ''Validate'', [], [], [], [], [], [], [], []]
   \<and> length (field (templateData (foldl hook_step initial_state
         [UpdateTemplateField CoreFunctions 0 ''Parse'', ResetForm,
          UpdateTemplateField CoreFunctions 3 ''Validate''])) DomainExpertise) = 12"
proof -
  let ?ops = "[UpdateTemplateField CoreFunctions 0 ''Parse'', ResetForm,
          UpdateTemplateField CoreFunctions 3 ''Validate'']"
  let ?st = "foldl hook_step initial_state ?ops"
  note inst = templateData_twelve_slots [of ?ops DomainExpertise 11 "''REST''" ?st]
  have st_dom: "field (templateData ?st) DomainExpertise = replicate 12 ''''"
    by code_simp
  have st_core: "field (templateData ?st) CoreFunctions
      = [[], [], [], ''Validate'', [], [], [], [], [], [], [], []]"
    by code_simp
  have len: "length (field (templateData ?st) DomainExpertise) = 12"
    using inst by blast
  have "(11::int) \<ge> 0 \<and> nat 11 < length (field (templateData ?st) DomainExpertise)"
    using len by simp
  with inst have "field (templateData (updateTemplateField DomainExpertise 11 ''REST'' ?st))
      DomainExpertise = (field (templateData ?st) DomainExpertise)[nat 11 := ''REST'']"
    by blast
  then have upd: "field (templateData (updateTemplateField DomainExpertise 11 ''REST'' ?st))
      DomainExpertise = replicate 11 '''' @ [''REST'']"
    by (simp only: st_dom) (simp add: numeral_eq_Suc)
  have "CoreFunctions \<noteq> DomainExpertise" by simp
  with inst have "field (templateData (updateTemplateField DomainExpertise 11 ''REST'' ?st))
      CoreFunctions = field (templateData ?st) CoreFunctions"
    by blast
  with upd st_core len show ?thesis by simp
qed

lemma addDocument_documents:
  "documents (addDocument n f result st) =
     (case result of
        PdfSuccess txt pages \<Rightarrow>
          if 12 \<le> n then documents st
          else documents st @ [\<lparr> doc_name = file_name f, doc_path = file_path f,
                 doc_text = txt, doc_pages = pages \<rparr>]
      | _ \<Rightarrow> documents st)"
  by (simp add: addDocument_def split: pdf_result.splits)

text \<open>
  When the guard reads the length of the list as it is (the callback of the current
  render), the list never grows beyond twelve entries.
\<close>

lemma addDocument_current_bound:
  "length (documents st) \<le> 12 \<Longrightarrow>
     length (documents (addDocument (length (documents st)) f result st)) \<le> 12"
  by (simp add: addDocument_documents split: pdf_result.splits)

lemma handleFileSelect_all_pdf:
  "rendered_length < 12 \<Longrightarrow>
   \<forall>x \<in> set files. sel_type (fst x) = ''application/pdf'' \<and> (\<exists>t p. snd x = PdfSuccess t p) \<Longrightarrow>
     length (documents (handleFileSelect rendered_length files st))
       = length (documents st) + length files"
  by (induction files arbitrary: st) (auto simp: addDocument_documents)

text \<open>
  C10 at the failing input. The upload view is rendered with no document; the user
  selects thirteen PDF files in one dialogue and each is processed with success. All
  thirteen calls of \<^verbatim>\<open>addDocument\<close> read the length 0 of that render, so the list ends
  with thirteen entries and no error.
\<close>

theorem handleFileSelect_thirteen_documents:
  "length (documents (handleFileSelect (length (documents initial_state))
      (replicate 13
         (\<lparr> sel_name = ''a.pdf'', sel_path = ''/docs/a.pdf'', sel_type = ''application/pdf'' \<rparr>,
          PdfSuccess (Some ''text'') 1))
      initial_state)) = 13
   \<and> error (handleFileSelect (length (documents initial_state))
      (replicate 13
         (\<lparr> sel_name = ''a.pdf'', sel_path = ''/docs/a.pdf'', sel_type = ''application/pdf'' \<rparr>,
          PdfSuccess (Some ''text'') 1))
      initial_state) = None"
  by (simp add: initial_state_def numeral_eq_Suc addDocument_def)

end
